theory Spec2Isabelle
  imports Complex_Main
begin

section \<open>Floating-point values as numpy sees them\<close>

text \<open>
  The script \<^verbatim>\<open>scripts/distortion.py\<close> works on numpy arrays of binary64 values.
  A value is its IEEE class: a finite number, which is a real, one of the two
  infinities, or NaN (the sign of zero is not represented). Classification and
  comparison are exact operations on these values.

  The arithmetic below is the arithmetic without rounding: on finite operands the
  result is the exact real, on special values it follows the IEEE rules. It is what
  binary64 computes whenever the exact result is a binary64 number. The Distortion
  Energy Evaluator does not use it: there the arithmetic of numpy is a parameter (see
  the record \<open>float64\<close>), so that nothing is assumed about rounding, overflow or the
  order of the operations inside numpy and LAPACK.
\<close>

datatype fval = Fin real | PInf | NInf | NaN

fun isfinite :: "fval \<Rightarrow> bool" where
  "isfinite (Fin x) = True"
| "isfinite PInf = False"
| "isfinite NInf = False"
| "isfinite NaN = False"

text \<open>Comparisons: every comparison with NaN is false, as in IEEE and numpy.\<close>

fun fp_lt :: "fval \<Rightarrow> fval \<Rightarrow> bool" where
  "fp_lt NaN b = False"
| "fp_lt a NaN = False"
| "fp_lt (Fin x) (Fin y) = (x < y)"
| "fp_lt (Fin x) PInf = True"
| "fp_lt (Fin x) NInf = False"
| "fp_lt PInf b = False"
| "fp_lt NInf NInf = False"
| "fp_lt NInf b = True"

definition fp_gt :: "fval \<Rightarrow> fval \<Rightarrow> bool" where
  "fp_gt a b = fp_lt b a"

definition fp_eq :: "fval \<Rightarrow> fval \<Rightarrow> bool" where
  "fp_eq a b = (a \<noteq> NaN \<and> b \<noteq> NaN \<and> a = b)"

definition fp_le :: "fval \<Rightarrow> fval \<Rightarrow> bool" where
  "fp_le a b = (fp_lt a b \<or> fp_eq a b)"

fun fneg :: "fval \<Rightarrow> fval" where
  "fneg (Fin x) = Fin (- x)"
| "fneg PInf = NInf"
| "fneg NInf = PInf"
| "fneg NaN = NaN"

text \<open>An infinity of the sign of a nonzero real.\<close>

definition inf_of_sign :: "real \<Rightarrow> fval" where
  "inf_of_sign x = (if x = 0 then NaN else if 0 < x then PInf else NInf)"

fun fadd :: "fval \<Rightarrow> fval \<Rightarrow> fval" where
  "fadd NaN b = NaN"
| "fadd a NaN = NaN"
| "fadd (Fin x) (Fin y) = Fin (x + y)"
| "fadd PInf NInf = NaN"
| "fadd NInf PInf = NaN"
| "fadd PInf b = PInf"
| "fadd NInf b = NInf"
| "fadd (Fin x) b = b"

fun fmul :: "fval \<Rightarrow> fval \<Rightarrow> fval" where
  "fmul NaN b = NaN"
| "fmul a NaN = NaN"
| "fmul (Fin x) (Fin y) = Fin (x * y)"
| "fmul (Fin x) PInf = inf_of_sign x"
| "fmul (Fin x) NInf = inf_of_sign (- x)"
| "fmul PInf (Fin y) = inf_of_sign y"
| "fmul NInf (Fin y) = inf_of_sign (- y)"
| "fmul PInf PInf = PInf"
| "fmul PInf NInf = NInf"
| "fmul NInf PInf = NInf"
| "fmul NInf NInf = PInf"

text \<open>
  Division does not trap: a nonzero finite number over zero is an infinity of the sign
  of the numerator (the zero divisors of the script are \<^verbatim>\<open>cbrt(square(det))\<close> and a
  circumradius, both positive zeros), zero over zero and infinity over infinity are NaN.
\<close>

fun fdiv :: "fval \<Rightarrow> fval \<Rightarrow> fval" where
  "fdiv NaN b = NaN"
| "fdiv a NaN = NaN"
| "fdiv (Fin x) (Fin y) = (if y = 0 then inf_of_sign x else Fin (x / y))"
| "fdiv (Fin x) PInf = Fin 0"
| "fdiv (Fin x) NInf = Fin 0"
| "fdiv PInf (Fin y) = (if 0 \<le> y then PInf else NInf)"
| "fdiv NInf (Fin y) = (if 0 \<le> y then NInf else PInf)"
| "fdiv PInf b = NaN"
| "fdiv NInf b = NaN"

definition fsub :: "fval \<Rightarrow> fval \<Rightarrow> fval" where
  "fsub a b = fadd a (fneg b)"

text \<open>\<^verbatim>\<open>np.square\<close> and \<^verbatim>\<open>np.cbrt\<close>, elementwise.\<close>

definition fsquare :: "fval \<Rightarrow> fval" where
  "fsquare a = fmul a a"

fun fcbrt :: "fval \<Rightarrow> fval" where
  "fcbrt (Fin x) = Fin (root 3 x)"
| "fcbrt PInf = PInf"
| "fcbrt NInf = NInf"
| "fcbrt NaN = NaN"

section \<open>Orientation quantisation\<close>

text \<open>
  Lines 47 and 48 of the script, two masked assignments one after the other:
  \<^verbatim>\<open>orientations[orientations > 0] = 1; orientations[orientations < 0] = -1\<close>.
\<close>

definition set_positive :: "fval list \<Rightarrow> fval list" where
  "set_positive os = map (\<lambda>x. if fp_gt x (Fin 0) then Fin 1 else x) os"

definition set_negative :: "fval list \<Rightarrow> fval list" where
  "set_negative os = map (\<lambda>x. if fp_lt x (Fin 0) then Fin (- 1) else x) os"

definition quantize_orientations :: "fval list \<Rightarrow> fval list" where
  "quantize_orientations os = set_negative (set_positive os)"

section \<open>Errors\<close>

text \<open>
  Every exception the script can raise is a value. \<open>UnsupportedElementKind\<close> is the
  \<^verbatim>\<open>RuntimeError\<close> of lines 26 and 133, \<open>MissingAttribute\<close> the failure of
  \<^verbatim>\<open>mesh.get_attribute\<close> on a name that was never added, \<open>SystemExit\<close> the exit of
  the argument parser.
\<close>

datatype error =
    UnsupportedElementKind
  | MissingAttribute string
  | IndexError
  | ValueError
  | LinAlgError
  | NameError string
  | SystemExit

text \<open>A list comprehension over a fallible body stops at the first exception.\<close>

fun sequence_err :: "(error + 'a) list \<Rightarrow> error + 'a list" where
  "sequence_err [] = Inr []"
| "sequence_err (x # xs) =
     (case x of
        Inl e \<Rightarrow> Inl e
      | Inr v \<Rightarrow> (case sequence_err xs of Inl e \<Rightarrow> Inl e | Inr vs \<Rightarrow> Inr (v # vs)))"

definition bind_err :: "error + 'a \<Rightarrow> ('a \<Rightarrow> error + 'b) \<Rightarrow> error + 'b" where
  "bind_err r f = (case r of Inl e \<Rightarrow> Inl e | Inr v \<Rightarrow> f v)"

section \<open>Small dense matrices\<close>

text \<open>
  The deformation gradient of a tetrahedron is a 3 by 3 array, the vertex block
  \<^verbatim>\<open>vertices[tet]\<close> a 4 by 3 array. Rows are tuples, so that shapes are part of the type.
\<close>

type_synonym vec3 = "fval \<times> fval \<times> fval"
type_synonym mat3 = "vec3 \<times> vec3 \<times> vec3"
type_synonym mat43 = "vec3 \<times> vec3 \<times> vec3 \<times> vec3"

fun transpose3 :: "mat3 \<Rightarrow> mat3" where
  "transpose3 ((a, b, c), (d, e, f), (g, h, i)) = ((a, d, g), (b, e, h), (c, f, i))"

definition dot_vec3 :: "vec3 \<Rightarrow> vec3 \<Rightarrow> fval" where
  "dot_vec3 u v =
     (case u of (u1, u2, u3) \<Rightarrow> case v of (v1, v2, v3) \<Rightarrow>
        fadd (fadd (fmul u1 v1) (fmul u2 v2)) (fmul u3 v3))"

text \<open>\<^verbatim>\<open>np.dot(A, B)\<close>: entry (r, c) is row r of A times column c of B.\<close>

definition dot3 :: "mat3 \<Rightarrow> mat3 \<Rightarrow> mat3" where
  "dot3 A B =
     (case A of (r1, r2, r3) \<Rightarrow> case transpose3 B of (c1, c2, c3) \<Rightarrow>
        ((dot_vec3 r1 c1, dot_vec3 r1 c2, dot_vec3 r1 c3),
         (dot_vec3 r2 c1, dot_vec3 r2 c2, dot_vec3 r2 c3),
         (dot_vec3 r3 c1, dot_vec3 r3 c2, dot_vec3 r3 c3)))"

fun trace3 :: "mat3 \<Rightarrow> fval" where
  "trace3 ((a, b, c), (d, e, f), (g, h, i)) = fadd (fadd a e) i"

text \<open>\<^verbatim>\<open>np.full((3,3), v)\<close>.\<close>

definition full3 :: "fval \<Rightarrow> mat3" where
  "full3 v = ((v, v, v), (v, v, v), (v, v, v))"

text \<open>
  The determinant and the inverse without rounding: cofactor expansion along the first
  row, and the adjugate over the determinant.
\<close>

definition minor2 :: "fval \<Rightarrow> fval \<Rightarrow> fval \<Rightarrow> fval \<Rightarrow> fval" where
  "minor2 p q r s = fsub (fmul p s) (fmul q r)"

fun cofactor_det :: "mat3 \<Rightarrow> fval" where
  "cofactor_det ((a, b, c), (d, e, f), (g, h, i)) =
     fadd (fsub (fmul a (minor2 e f h i)) (fmul b (minor2 d f g i))) (fmul c (minor2 d e g h))"

fun adjugate :: "mat3 \<Rightarrow> mat3" where
  "adjugate ((a, b, c), (d, e, f), (g, h, i)) =
     ((minor2 e f h i, minor2 c b i h, minor2 b c e f),
      (minor2 f d i g, minor2 a c g i, minor2 c a f d),
      (minor2 d e g h, minor2 b a h g, minor2 a b d e))"

fun scale_div3 :: "mat3 \<Rightarrow> fval \<Rightarrow> mat3" where
  "scale_div3 ((a, b, c), (d, e, f), (g, h, i)) k =
     ((fdiv a k, fdiv b k, fdiv c k),
      (fdiv d k, fdiv e k, fdiv f k),
      (fdiv g k, fdiv h k, fdiv i k))"

definition adjugate_inverse :: "mat3 \<Rightarrow> mat3" where
  "adjugate_inverse J = scale_div3 (adjugate J) (cofactor_det J)"

section \<open>The arithmetic of numpy\<close>

text \<open>
  The numpy functions that the Distortion Energy Evaluator calls on binary64 data are
  parameters of the model: \<^verbatim>\<open>np.dot\<close> and \<^verbatim>\<open>np.trace\<close> on 3 by 3 arrays, and
  \<^verbatim>\<open>np.square\<close>, \<^verbatim>\<open>np.cbrt\<close>, \<^verbatim>\<open>np.divide\<close> and \<^verbatim>\<open>+\<close> on one element.

  \<^verbatim>\<open>numpy.linalg.det\<close> and \<^verbatim>\<open>numpy.linalg.inv\<close> both start from the LU factorisation with
  partial pivoting that LAPACK computes for the array. When the factorisation meets a
  pivot that is exactly zero, \<^verbatim>\<open>det\<close> returns 0.0 and \<^verbatim>\<open>inv\<close> raises \<^verbatim>\<open>LinAlgError\<close>.
  Otherwise \<^verbatim>\<open>det\<close> returns the signed product of the pivots as it computes it, and
  \<^verbatim>\<open>inv\<close> the solution of the triangular systems; both are rounded, and may underflow
  (to a determinant of 0.0 without a zero pivot), overflow or be NaN. The field
  \<open>f64_lu\<close> is that outcome for an array: nothing for a zero pivot, else the
  determinant and the inverse that numpy returns.
\<close>

record float64 =
  f64_dot :: "mat3 \<Rightarrow> mat3 \<Rightarrow> mat3"
  f64_trace :: "mat3 \<Rightarrow> fval"
  f64_square :: "fval \<Rightarrow> fval"
  f64_cbrt :: "fval \<Rightarrow> fval"
  f64_divide :: "fval \<Rightarrow> fval \<Rightarrow> fval"
  f64_add :: "fval \<Rightarrow> fval \<Rightarrow> fval"
  f64_lu :: "mat3 \<Rightarrow> (fval \<times> mat3) option"

definition linalg_det :: "float64 \<Rightarrow> mat3 \<Rightarrow> fval" where
  "linalg_det np J = (case f64_lu np J of None \<Rightarrow> Fin 0 | Some (d, M) \<Rightarrow> d)"

definition linalg_inv :: "float64 \<Rightarrow> mat3 \<Rightarrow> error + mat3" where
  "linalg_inv np J = (case f64_lu np J of None \<Rightarrow> Inl LinAlgError | Some (d, M) \<Rightarrow> Inr M)"

section \<open>Elementwise array operations\<close>

text \<open>
  \<^verbatim>\<open>np.divide(xs, ys)\<close> and \<^verbatim>\<open>xs + ys\<close> on one-dimensional arrays: elementwise on equal
  lengths, an array of length one is broadcast, any other pair of shapes raises
  \<^verbatim>\<open>ValueError\<close>. \<open>np_binary\<close> takes the operation on one element; \<open>np_divide\<close> is the
  division without rounding, which the Shape Quality Evaluator is modelled with.
\<close>

definition np_binary :: "(fval \<Rightarrow> fval \<Rightarrow> fval) \<Rightarrow> fval list \<Rightarrow> fval list \<Rightarrow> error + fval list" where
  "np_binary f xs ys =
     (if length xs = length ys then Inr (map2 f xs ys)
      else if length ys = 1 then Inr (map (\<lambda>x. f x (hd ys)) xs)
      else if length xs = 1 then Inr (map (\<lambda>y. f (hd xs) y) ys)
      else Inl ValueError)"

definition np_divide :: "fval list \<Rightarrow> fval list \<Rightarrow> error + fval list" where
  "np_divide = np_binary fdiv"

text \<open>\<^verbatim>\<open>np.count_nonzero\<close> of a boolean mask.\<close>

definition count_nonzero :: "bool list \<Rightarrow> nat" where
  "count_nonzero bs = length (filter (\<lambda>b. b) bs)"

section \<open>The mesh, the geometry provider and the attribute store\<close>

text \<open>
  The script receives its mesh from the \<^verbatim>\<open>pymesh\<close> package, whose code is not part of
  the script. What the script reads of a mesh is its vertex array, its voxel array (one
  row of vertex indices per voxel), the number of vertices per voxel and its named
  attributes. The per-voxel quantities that \<^verbatim>\<open>pymesh\<close> computes on request are carried in
  the record \<open>geometry\<close>.
\<close>

datatype attr = FloatArray "fval list" | BoolArray "bool list" | RowArray "fval list list"

record geometry =
  geo_orientation :: "fval list"
  geo_inradius :: "fval list"
  geo_circumradius :: "fval list"
  geo_dihedral_angle :: "fval list list"
  geo_radius_edge_ratio :: "fval list"
  geo_edge_ratio :: "fval list"

record mesh =
  vertices :: "vec3 list"
  voxels :: "nat list list"
  vertex_per_voxel :: nat
  geometry :: geometry
  attributes :: "string \<rightharpoonup> attr"

definition num_voxels :: "mesh \<Rightarrow> nat" where
  "num_voxels m = length (voxels m)"

text \<open>
  Modelled from the spec: the Geometry Provider of \<^verbatim>\<open>pymesh\<close>
  (\<^verbatim>\<open>get_tet_orientations\<close> and the predefined attributes computed by
  \<^verbatim>\<open>add_attribute\<close>), which supplies one signed orientation, one inradius, one
  circumradius, one radius-edge ratio and one edge ratio per tetrahedron, and six
  dihedral angles per tetrahedron.
\<close>

definition get_tet_orientations :: "mesh \<Rightarrow> fval list" where
  "get_tet_orientations m = geo_orientation (geometry m)"

definition provider_attribute :: "geometry \<Rightarrow> string \<Rightarrow> attr option" where
  "provider_attribute g name =
     (if name = ''voxel_inradius'' then Some (FloatArray (geo_inradius g))
      else if name = ''voxel_circumradius'' then Some (FloatArray (geo_circumradius g))
      else if name = ''voxel_dihedral_angle'' then Some (RowArray (geo_dihedral_angle g))
      else if name = ''voxel_radius_edge_ratio'' then Some (FloatArray (geo_radius_edge_ratio g))
      else if name = ''voxel_edge_ratio'' then Some (FloatArray (geo_edge_ratio g))
      else None)"

text \<open>
  Modelled from the spec: the Attribute Sink of \<^verbatim>\<open>pymesh\<close> (\<^verbatim>\<open>add_attribute\<close>,
  \<^verbatim>\<open>set_attribute\<close>, \<^verbatim>\<open>get_attribute\<close>, \<^verbatim>\<open>get_voxel_attribute\<close>), a store of arrays keyed
  by name. Adding a predefined name materialises the provider's array; adding any other
  name registers an empty array unless the name is already there; setting stores the
  array given; getting a name that was never added fails with \<open>MissingAttribute\<close> and
  otherwise returns the flat array of numbers; the per-voxel view returns one row per
  voxel.
\<close>

definition add_attribute :: "string \<Rightarrow> mesh \<Rightarrow> mesh" where
  "add_attribute name m =
     (case provider_attribute (geometry m) name of
        Some a \<Rightarrow> m\<lparr>attributes := (attributes m)(name \<mapsto> a)\<rparr>
      | None \<Rightarrow>
          (case attributes m name of
             None \<Rightarrow> m\<lparr>attributes := (attributes m)(name \<mapsto> FloatArray [])\<rparr>
           | Some a \<Rightarrow> m))"

definition set_attribute :: "string \<Rightarrow> attr \<Rightarrow> mesh \<Rightarrow> mesh" where
  "set_attribute name a m = m\<lparr>attributes := (attributes m)(name \<mapsto> a)\<rparr>"

fun flat :: "attr \<Rightarrow> fval list" where
  "flat (FloatArray xs) = xs"
| "flat (BoolArray bs) = map (\<lambda>b. if b then Fin 1 else Fin 0) bs"
| "flat (RowArray rows) = concat rows"

fun rows_of :: "attr \<Rightarrow> fval list list" where
  "rows_of (RowArray rows) = rows"
| "rows_of a = map (\<lambda>x. [x]) (flat a)"

definition get_attribute :: "string \<Rightarrow> mesh \<Rightarrow> error + fval list" where
  "get_attribute name m =
     (case attributes m name of
        None \<Rightarrow> Inl (MissingAttribute name)
      | Some a \<Rightarrow> Inr (flat a))"

definition get_voxel_attribute :: "string \<Rightarrow> mesh \<Rightarrow> error + fval list list" where
  "get_voxel_attribute name m =
     (case attributes m name of
        None \<Rightarrow> Inl (MissingAttribute name)
      | Some a \<Rightarrow> Inr (rows_of a))"

section \<open>The Distortion Energy Evaluator\<close>

text \<open>
  \<^verbatim>\<open>vertices[tet]\<close>: fancy indexing raises \<^verbatim>\<open>IndexError\<close> on an index out of range; the
  product with the gradient operator needs four rows.
\<close>

definition vertex_block :: "vec3 list \<Rightarrow> nat list \<Rightarrow> error + mat43" where
  "vertex_block vs tet =
     (if list_ex (\<lambda>i. length vs \<le> i) tet then Inl IndexError
      else case tet of
             [a, b, c, d] \<Rightarrow> Inr (vs ! a, vs ! b, vs ! c, vs ! d)
           | _ \<Rightarrow> Inl ValueError)"

text \<open>Line 38: the sentinel when the determinant compares equal to zero, else the inverse.\<close>

definition invert_J :: "float64 \<Rightarrow> mat3 \<times> fval \<Rightarrow> error + mat3" where
  "invert_J np args =
     (if fp_eq (snd args) (Fin 0) then Inr (full3 PInf) else linalg_inv np (fst args))"

text \<open>\<^verbatim>\<open>np.trace(np.dot(J.T, J))\<close>, lines 36 and 40.\<close>

definition frobenius :: "float64 \<Rightarrow> mat3 \<Rightarrow> fval" where
  "frobenius np J = f64_trace np (f64_dot np (transpose3 J) J)"

text \<open>A call of \<^verbatim>\<open>logger.warn\<close>: the text before the count, and the count.\<close>

type_synonym warning = "string \<times> nat"

definition warn_if_positive :: "string \<Rightarrow> nat \<Rightarrow> warning list" where
  "warn_if_positive msg n = (if 0 < n then [(msg, n)] else [])"

text \<open>
  \<^verbatim>\<open>compute_distortion_energies(mesh)\<close>. The gradient operator \<open>G\<close> of the regular
  tetrahedron comes from the \<^verbatim>\<open>pymesh\<close> assembler and is a parameter: it maps the 4 by 3
  vertex block of a tetrahedron to its 3 by 3 deformation gradient.

  Lines 32 to 40 compute the intermediate arrays \<^verbatim>\<open>Js\<close>, \<^verbatim>\<open>J_F\<close>, \<^verbatim>\<open>J_det\<close>, \<^verbatim>\<open>J_inv\<close>
  and \<^verbatim>\<open>J_inv_F\<close>, which the function does not return; they are a definition of their
  own here.
\<close>

type_synonym intermediates = "mat3 list \<times> fval list \<times> fval list \<times> mat3 list \<times> fval list"

definition jacobians :: "float64 \<Rightarrow> (mat43 \<Rightarrow> mat3) \<Rightarrow> mesh \<Rightarrow> error + intermediates" where
  "jacobians np G mesh =
     bind_err (sequence_err (map (vertex_block (vertices mesh)) (voxels mesh))) (\<lambda>blocks.
     let Js = map G blocks;
         J_F = map (frobenius np) Js;
         J_det = map (linalg_det np) Js
     in
     bind_err (sequence_err (map (invert_J np) (zip Js J_det))) (\<lambda>J_inv.
     let J_inv_F = map (frobenius np) J_inv in
     Inr (Js, J_F, J_det, J_inv, J_inv_F)))"

text \<open>
  The whole function: the guard of line 25, the intermediate arrays, the two energies
  with their flags, the orientations, the four counts with their warnings, and the five
  attributes. The result is the mesh with its new attributes and the warnings logged.
\<close>

definition compute_distortion_energies ::
    "float64 \<Rightarrow> (mat43 \<Rightarrow> mat3) \<Rightarrow> mesh \<Rightarrow> error + (mesh \<times> warning list)" where
  "compute_distortion_energies np G mesh =
     (if 0 < num_voxels mesh \<and> vertex_per_voxel mesh \<noteq> 4 then Inl UnsupportedElementKind
      else
        bind_err (jacobians np G mesh) (\<lambda>(Js, J_F, J_det, J_inv, J_inv_F).
        bind_err (np_binary (f64_divide np) J_F
                    (map (f64_cbrt np) (map (f64_square np) J_det))) (\<lambda>conformal_amips.
        let finite_conformal_amips = map isfinite conformal_amips in
        bind_err (np_binary (f64_add np) J_F J_inv_F) (\<lambda>symmetric_dirichlet.
        let finite_symmetric_dirichlet = map isfinite symmetric_dirichlet;
            orientations = quantize_orientations (get_tet_orientations mesh);
            num_degenerate_tets = count_nonzero (map (\<lambda>x. fp_eq x (Fin 0)) orientations);
            num_inverted_tets = count_nonzero (map (\<lambda>x. fp_lt x (Fin 0)) orientations);
            num_nonfinite_amips = count_nonzero (map Not finite_conformal_amips);
            num_nonfinite_dirichlet = count_nonzero (map Not finite_symmetric_dirichlet);
            warnings =
              warn_if_positive ''degenerate tets: '' num_degenerate_tets
              @ warn_if_positive ''inverted tets: '' num_inverted_tets
              @ warn_if_positive ''Non-finite conformal AMIPS: '' num_nonfinite_amips
              @ warn_if_positive ''Non-finite symmetric Dirichlet: '' num_nonfinite_dirichlet;
            m1 = set_attribute ''conformal_AMIPS'' (FloatArray conformal_amips)
                   (add_attribute ''conformal_AMIPS'' mesh);
            m2 = set_attribute ''finite_conformal_AMIPS'' (BoolArray finite_conformal_amips)
                   (add_attribute ''finite_conformal_AMIPS'' m1);
            m3 = set_attribute ''symmetric_Dirichlet'' (FloatArray symmetric_dirichlet)
                   (add_attribute ''symmetric_Dirichlet'' m2);
            m4 = set_attribute ''finite_symmetric_Dirichlet'' (BoolArray finite_symmetric_dirichlet)
                   (add_attribute ''finite_symmetric_Dirichlet'' m3);
            m5 = set_attribute ''orientations'' (FloatArray orientations)
                   (add_attribute ''orientations'' m4)
        in Inr (m5, warnings)))))"

section \<open>The Shape Quality Evaluator\<close>

text \<open>
  \<^verbatim>\<open>np.amin(a, axis=1)\<close> and \<^verbatim>\<open>np.amax(a, axis=1)\<close>: the reduction of each row with
  \<^verbatim>\<open>np.minimum\<close> (\<^verbatim>\<open>np.maximum\<close>), which keeps a NaN once it has met one. Reducing a row
  without elements raises \<^verbatim>\<open>ValueError\<close>.
\<close>

definition np_minimum :: "fval \<Rightarrow> fval \<Rightarrow> fval" where
  "np_minimum a b = (if fp_le a b \<or> a = NaN then a else b)"

definition np_maximum :: "fval \<Rightarrow> fval \<Rightarrow> fval" where
  "np_maximum a b = (if fp_le b a \<or> a = NaN then a else b)"

fun amin_row :: "fval list \<Rightarrow> error + fval" where
  "amin_row [] = Inl ValueError"
| "amin_row (x # xs) = Inr (foldl np_minimum x xs)"

fun amax_row :: "fval list \<Rightarrow> error + fval" where
  "amax_row [] = Inl ValueError"
| "amax_row (x # xs) = Inr (foldl np_maximum x xs)"

definition amin_axis1 :: "fval list list \<Rightarrow> error + fval list" where
  "amin_axis1 rows = sequence_err (map amin_row rows)"

definition amax_axis1 :: "fval list list \<Rightarrow> error + fval list" where
  "amax_axis1 rows = sequence_err (map amax_row rows)"

text \<open>\<^verbatim>\<open>compute_tet_quality_measures(mesh)\<close>, lines 78 to 99.\<close>

definition compute_tet_quality_measures :: "mesh \<Rightarrow> error + mesh" where
  "compute_tet_quality_measures mesh =
     (let m1 = add_attribute ''voxel_circumradius'' (add_attribute ''voxel_inradius'' mesh) in
      bind_err (get_attribute ''voxel_inradius'' m1) (\<lambda>inradius.
      bind_err (get_attribute ''voxel_circumradius'' m1) (\<lambda>circumradius.
      bind_err (np_divide inradius circumradius) (\<lambda>radius_ratio.
      let m2 = set_attribute ''radius_ratio'' (FloatArray radius_ratio)
                 (add_attribute ''radius_ratio'' m1);
          m3 = add_attribute ''voxel_dihedral_angle'' m2
      in
      bind_err (get_voxel_attribute ''voxel_dihedral_angle'' m3) (\<lambda>dihedral_angle.
      bind_err (if num_voxels m3 = 0 then Inr [] else amin_axis1 dihedral_angle)
        (\<lambda>min_dihedral_angle.
      bind_err (if num_voxels m3 = 0 then Inr [] else amax_axis1 dihedral_angle)
        (\<lambda>max_dihedral_angle.
      let m4 = set_attribute ''voxel_min_dihedral_angle'' (FloatArray min_dihedral_angle)
                 (add_attribute ''voxel_min_dihedral_angle'' m3);
          m5 = set_attribute ''voxel_max_dihedral_angle'' (FloatArray max_dihedral_angle)
                 (add_attribute ''voxel_max_dihedral_angle'' m4)
      in Inr (add_attribute ''voxel_edge_ratio''
                (add_attribute ''voxel_radius_edge_ratio'' m5)))))))))"

section \<open>The Tabular Exporter\<close>

text \<open>
  A table file is the list of the rows written to it; a cell is what \<^verbatim>\<open>csv.writer\<close>
  was given for it. The file system maps a path to the rows of the file.
\<close>

datatype cell = CStr string | CInt nat | CNum fval

type_synonym row = "cell list"

definition csv_header :: row where
  "csv_header = map CStr [''index'', ''edge_ratio'', ''radius_ratio'',
     ''min_dihedral_angle'', ''max_dihedral_angle'', ''radius_edge_ratio'',
     ''conformal_amips'', ''symmetric_dirichlet'', ''orientation'']"

text \<open>\<^verbatim>\<open>xs[i]\<close> on an array: \<^verbatim>\<open>IndexError\<close> past the end.\<close>

definition index_array :: "fval list \<Rightarrow> nat \<Rightarrow> error + fval" where
  "index_array xs i = (if i < length xs then Inr (xs ! i) else Inl IndexError)"

type_synonym columns =
  "fval list \<times> fval list \<times> fval list \<times> fval list \<times> fval list \<times> fval list \<times> fval list \<times> fval list"

text \<open>The eight \<^verbatim>\<open>get_attribute\<close> calls of lines 109 to 116, in their order.\<close>

definition fetch_columns :: "mesh \<Rightarrow> error + columns" where
  "fetch_columns mesh =
     bind_err (get_attribute ''voxel_edge_ratio'' mesh) (\<lambda>edge_ratio.
     bind_err (get_attribute ''radius_ratio'' mesh) (\<lambda>radius_ratio.
     bind_err (get_attribute ''voxel_min_dihedral_angle'' mesh) (\<lambda>min_dihedral.
     bind_err (get_attribute ''voxel_max_dihedral_angle'' mesh) (\<lambda>max_dihedral.
     bind_err (get_attribute ''voxel_radius_edge_ratio'' mesh) (\<lambda>re_ratio.
     bind_err (get_attribute ''conformal_AMIPS'' mesh) (\<lambda>amips.
     bind_err (get_attribute ''symmetric_Dirichlet'' mesh) (\<lambda>dirichlet.
     bind_err (get_attribute ''orientations'' mesh) (\<lambda>orientation.
     Inr (edge_ratio, radius_ratio, min_dihedral, max_dihedral, re_ratio, amips,
          dirichlet, orientation)))))))))"

text \<open>The list built at lines 119 to 127 for tetrahedron \<open>i\<close>.\<close>

definition csv_row :: "columns \<Rightarrow> nat \<Rightarrow> error + row" where
  "csv_row cols i =
     (case cols of
        (edge_ratio, radius_ratio, min_dihedral, max_dihedral, re_ratio, amips, dirichlet,
         orientation) \<Rightarrow>
     bind_err (index_array edge_ratio i) (\<lambda>c1.
     bind_err (index_array radius_ratio i) (\<lambda>c2.
     bind_err (index_array min_dihedral i) (\<lambda>c3.
     bind_err (index_array max_dihedral i) (\<lambda>c4.
     bind_err (index_array re_ratio i) (\<lambda>c5.
     bind_err (index_array amips i) (\<lambda>c6.
     bind_err (index_array dirichlet i) (\<lambda>c7.
     bind_err (index_array orientation i) (\<lambda>c8.
     Inr [CInt i, CNum c1, CNum c2, CNum c3, CNum c4, CNum c5, CNum c6, CNum c7,
          CNum c8])))))))))"

text \<open>The loop of line 118: rows are appended until one fails.\<close>

fun write_rows :: "(nat \<Rightarrow> error + row) \<Rightarrow> nat list \<Rightarrow> row list \<Rightarrow> row list \<times> error option" where
  "write_rows mk [] out = (out, None)"
| "write_rows mk (i # is) out =
     (case mk i of
        Inl e \<Rightarrow> (out, Some e)
      | Inr r \<Rightarrow> write_rows mk is (out @ [r]))"

text \<open>
  \<^verbatim>\<open>output_to_csv(mesh, csv_file)\<close>: the file is opened for writing (created or
  truncated) and the header is written before any attribute is fetched. The result is
  the file system when the function is left, and the exception that left it, if any.
\<close>

definition output_to_csv ::
    "mesh \<Rightarrow> string \<Rightarrow> (string \<rightharpoonup> row list) \<Rightarrow> (string \<rightharpoonup> row list) \<times> error option" where
  "output_to_csv mesh csv_file fs =
     (case fetch_columns mesh of
        Inl e \<Rightarrow> (fs(csv_file \<mapsto> [csv_header]), Some e)
      | Inr cols \<Rightarrow>
          (case write_rows (csv_row cols) [0 ..< num_voxels mesh] [csv_header] of
             (out, r) \<Rightarrow> (fs(csv_file \<mapsto> out), r)))"

text \<open>
  The names the exporter fetches, in the order of the columns after the index, and the
  array it gets for a name.
\<close>

definition required_attributes :: "string list" where
  "required_attributes = [''voxel_edge_ratio'', ''radius_ratio'',
     ''voxel_min_dihedral_angle'', ''voxel_max_dihedral_angle'', ''voxel_radius_edge_ratio'',
     ''conformal_AMIPS'', ''symmetric_Dirichlet'', ''orientations'']"

definition column :: "mesh \<Rightarrow> string \<Rightarrow> fval list" where
  "column m name = (case attributes m name of None \<Rightarrow> [] | Some a \<Rightarrow> flat a)"

text \<open>The row of tetrahedron \<open>i\<close>: its index, then the stored values in column order.\<close>

definition table_row :: "mesh \<Rightarrow> nat \<Rightarrow> row" where
  "table_row m i = [CInt i,
     CNum (column m ''voxel_edge_ratio'' ! i), CNum (column m ''radius_ratio'' ! i),
     CNum (column m ''voxel_min_dihedral_angle'' ! i),
     CNum (column m ''voxel_max_dihedral_angle'' ! i),
     CNum (column m ''voxel_radius_edge_ratio'' ! i),
     CNum (column m ''conformal_AMIPS'' ! i), CNum (column m ''symmetric_Dirichlet'' ! i),
     CNum (column m ''orientations'' ! i)]"

definition no_files :: "string \<rightharpoonup> row list" where
  "no_files = Map.empty"

section \<open>The command line\<close>

text \<open>
  \<^verbatim>\<open>parse_args()\<close>, lines 14 to 22: the option \<^verbatim>\<open>--log\<close> with five choices and the default
  \<^verbatim>\<open>WARNING\<close>, the option \<^verbatim>\<open>--csv\<close>, and two positional arguments. The parser is the
  one of \<^verbatim>\<open>argparse\<close>: a token that begins with a dash and has more characters is an
  option, long options may be abbreviated to a prefix, the value of an option is given
  after an equals sign or by the next token, \<^verbatim>\<open>-h\<close> prints the help and exits, and any
  error exits. (The negative numbers that \<^verbatim>\<open>argparse\<close> takes for positionals and the
  separator \<^verbatim>\<open>--\<close> are rejected here.)
\<close>

record args =
  arg_log :: string
  arg_csv :: "string option"
  arg_input_mesh :: string
  arg_output_mesh :: string

definition log_choices :: "string list" where
  "log_choices = [''DEBUG'', ''INFO'', ''WARNING'', ''ERROR'', ''CRITICAL'']"

datatype opt = OptHelp | OptLog | OptCsv

definition looks_like_option :: "string \<Rightarrow> bool" where
  "looks_like_option tok = (case tok of c # d # _ \<Rightarrow> c = CHR ''-'' | _ \<Rightarrow> False)"

fun split_eq :: "string \<Rightarrow> string \<times> string option" where
  "split_eq [] = ([], None)"
| "split_eq (c # cs) =
     (if c = CHR ''='' then ([], Some cs)
      else case split_eq cs of (name, v) \<Rightarrow> (c # name, v))"

definition is_prefix_of :: "string \<Rightarrow> string \<Rightarrow> bool" where
  "is_prefix_of p s = (take (length p) s = p)"

definition option_of :: "string \<Rightarrow> opt option" where
  "option_of name =
     (if name = ''-h'' then Some OptHelp
      else if 2 < length name \<and> is_prefix_of name ''--help'' then Some OptHelp
      else if 2 < length name \<and> is_prefix_of name ''--log'' then Some OptLog
      else if 2 < length name \<and> is_prefix_of name ''--csv'' then Some OptCsv
      else None)"

type_synonym parsed = "string \<times> string option \<times> string list"

definition store_option :: "opt \<Rightarrow> string \<Rightarrow> parsed \<Rightarrow> error + parsed" where
  "store_option k v acc =
     (case acc of (lg, cs, pos) \<Rightarrow>
        (case k of
           OptHelp \<Rightarrow> Inl SystemExit
         | OptLog \<Rightarrow> (if v \<in> set log_choices then Inr (v, cs, pos) else Inl SystemExit)
         | OptCsv \<Rightarrow> Inr (lg, Some v, pos)))"

fun parse_tokens :: "string list \<Rightarrow> parsed \<Rightarrow> error + parsed" where
  "parse_tokens [] acc = Inr acc"
| "parse_tokens (tok # rest) acc =
     (if looks_like_option tok then
        (case option_of (fst (split_eq tok)) of
           None \<Rightarrow> Inl SystemExit
         | Some OptHelp \<Rightarrow> Inl SystemExit
         | Some k \<Rightarrow>
             (case snd (split_eq tok) of
                Some v \<Rightarrow> bind_err (store_option k v acc) (parse_tokens rest)
              | None \<Rightarrow>
                  (case rest of
                     [] \<Rightarrow> Inl SystemExit
                   | v # rest' \<Rightarrow>
                       (if looks_like_option v then Inl SystemExit
                        else bind_err (store_option k v acc) (parse_tokens rest')))))
      else (case acc of (lg, cs, pos) \<Rightarrow> parse_tokens rest (lg, cs, pos @ [tok])))"

definition parse_args :: "string list \<Rightarrow> error + args" where
  "parse_args argv =
     bind_err (parse_tokens argv (''WARNING'', None, [])) (\<lambda>acc.
       case acc of (lg, cs, pos) \<Rightarrow>
         (case pos of
            [i, out] \<Rightarrow>
              Inr \<lparr>arg_log = lg, arg_csv = cs, arg_input_mesh = i, arg_output_mesh = out\<rparr>
          | _ \<Rightarrow> Inl SystemExit))"

text \<open>
  \<^verbatim>\<open>getattr(logging, name, None)\<close>: the level names of the \<^verbatim>\<open>logging\<close> module are
  integers, its functions and classes are other objects, a name the module does not
  have gives \<^verbatim>\<open>None\<close>.
\<close>

datatype pyval = PyInt int | PyObject

definition logging_getattr :: "string \<Rightarrow> pyval option" where
  "logging_getattr name =
     (if name = ''CRITICAL'' \<or> name = ''FATAL'' then Some (PyInt 50)
      else if name = ''ERROR'' then Some (PyInt 40)
      else if name = ''WARNING'' \<or> name = ''WARN'' then Some (PyInt 30)
      else if name = ''INFO'' then Some (PyInt 20)
      else if name = ''DEBUG'' then Some (PyInt 10)
      else if name = ''NOTSET'' then Some (PyInt 0)
      else if name \<in> set [''debug'', ''info'', ''warning'', ''warn'', ''error'', ''critical'',
                ''getLogger'', ''basicConfig'', ''Logger'', ''Handler''] then Some PyObject
      else None)"

text \<open>The test of line 136, \<^verbatim>\<open>not isinstance(numeric_level, int)\<close>, on the parsed arguments.\<close>

definition invalid_level :: "args \<Rightarrow> bool" where
  "invalid_level a =
     (case logging_getattr (arg_log a) of Some (PyInt k) \<Rightarrow> False | _ \<Rightarrow> True)"

section \<open>The main program\<close>

text \<open>
  What a run leaves behind: the table files, the meshes saved, the warnings logged
  and the level the logging was configured with.
\<close>

record world =
  csv_files :: "string \<rightharpoonup> row list"
  saved_meshes :: "string \<rightharpoonup> mesh"
  logged :: "warning list"
  log_level :: "int option"

text \<open>
  Lines 131 to 145 of \<^verbatim>\<open>main()\<close>, after the arguments are parsed. \<^verbatim>\<open>pymesh.load_mesh\<close> is
  a parameter. When the level is not an integer, building the message of the
  \<^verbatim>\<open>ValueError\<close> evaluates the name \<^verbatim>\<open>loglevel\<close>, which nothing defines: the exception
  that leaves the function is a \<^verbatim>\<open>NameError\<close>.
\<close>

definition run ::
    "float64 \<Rightarrow> (mat43 \<Rightarrow> mat3) \<Rightarrow> (string \<Rightarrow> error + mesh) \<Rightarrow> args \<Rightarrow> world \<Rightarrow> error + world" where
  "run np G load_mesh a w =
     bind_err (load_mesh (arg_input_mesh a)) (\<lambda>mesh.
     if 0 < num_voxels mesh \<and> vertex_per_voxel mesh \<noteq> 4 then Inl UnsupportedElementKind
     else
       (case logging_getattr (arg_log a) of
          Some (PyInt numeric_level) \<Rightarrow>
            bind_err (compute_distortion_energies np G mesh) (\<lambda>(m1, warnings).
            bind_err (compute_tet_quality_measures m1) (\<lambda>m2.
            (case (case arg_csv a of
                     None \<Rightarrow> (csv_files w, None)
                   | Some csv_file \<Rightarrow> output_to_csv m2 csv_file (csv_files w)) of
               (fs, Some e) \<Rightarrow> Inl e
             | (fs, None) \<Rightarrow>
                 Inr (w\<lparr>csv_files := fs,
                        saved_meshes := (saved_meshes w)(arg_output_mesh a \<mapsto> m2),
                        logged := logged w @ warnings,
                        log_level := Some numeric_level\<rparr>))))
        | _ \<Rightarrow> Inl (NameError ''loglevel'')))"

definition main ::
    "float64 \<Rightarrow> (mat43 \<Rightarrow> mat3) \<Rightarrow> (string \<Rightarrow> error + mesh) \<Rightarrow> string list \<Rightarrow> world \<Rightarrow> error + world" where
  "main np G load_mesh argv w = bind_err (parse_args argv) (\<lambda>a. run np G load_mesh a w)"

section \<open>Well-formed meshes and the algorithm as the specification words it\<close>

text \<open>
  The invariant of a mesh: every voxel row has \<open>vertex_per_voxel\<close> indices, all within
  the vertex array, and the provider has one value per voxel of each quantity, and six
  dihedral angles per voxel.
\<close>

definition voxels_ok :: "mesh \<Rightarrow> bool" where
  "voxels_ok m =
     list_all (\<lambda>tet. length tet = vertex_per_voxel m \<and>
                      list_all (\<lambda>i. i < length (vertices m)) tet) (voxels m)"


text \<open>
  The per-tetrahedron algorithm of the specification, steps 1 to 7, for one vertex
  block \<open>V\<close>: the two energies as scalars.
\<close>

definition spec_J_inv :: "float64 \<Rightarrow> mat3 \<Rightarrow> mat3" where
  "spec_J_inv np J =
     (if fp_eq (linalg_det np J) (Fin 0) then full3 PInf
      else case linalg_inv np J of Inr M \<Rightarrow> M | Inl e \<Rightarrow> full3 PInf)"

definition spec_conformal_AMIPS :: "float64 \<Rightarrow> (mat43 \<Rightarrow> mat3) \<Rightarrow> mat43 \<Rightarrow> fval" where
  "spec_conformal_AMIPS np G V =
     (let J = G V;
          J_F = f64_trace np (f64_dot np (transpose3 J) J);
          det_J = linalg_det np J
      in f64_divide np J_F (f64_cbrt np (f64_square np det_J)))"

definition spec_symmetric_Dirichlet :: "float64 \<Rightarrow> (mat43 \<Rightarrow> mat3) \<Rightarrow> mat43 \<Rightarrow> fval" where
  "spec_symmetric_Dirichlet np G V =
     (let J = G V;
          J_F = f64_trace np (f64_dot np (transpose3 J) J);
          J_inv = spec_J_inv np J;
          J_inv_F = f64_trace np (f64_dot np (transpose3 J_inv) J_inv)
      in f64_add np J_F J_inv_F)"

text \<open>The vertex block \<open>V_t\<close> of tetrahedron \<open>t\<close>.\<close>

definition tet_block :: "mesh \<Rightarrow> nat \<Rightarrow> mat43" where
  "tet_block m t =
     (let tet = voxels m ! t; vs = vertices m
      in (vs ! (tet ! 0), vs ! (tet ! 1), vs ! (tet ! 2), vs ! (tet ! 3)))"

text \<open>
  What the array expressions of lines 42 and 44 compute at one position, from the
  deformation gradient at that position.
\<close>

definition amips_of :: "float64 \<Rightarrow> mat3 \<Rightarrow> fval" where
  "amips_of np J =
     f64_divide np (frobenius np J) (f64_cbrt np (f64_square np (linalg_det np J)))"

definition dirichlet_of :: "float64 \<Rightarrow> mat3 \<Rightarrow> fval" where
  "dirichlet_of np J = f64_add np (frobenius np J) (frobenius np (spec_J_inv np J))"

section \<open>Concrete meshes\<close>

text \<open>
  The arithmetic without rounding as an instance of the parameter, to run the
  evaluator on concrete meshes whose intermediate values are binary64 numbers. Its
  factorisation fails where the determinant is zero.
\<close>

definition exact_lu :: "mat3 \<Rightarrow> (fval \<times> mat3) option" where
  "exact_lu J =
     (if fp_eq (cofactor_det J) (Fin 0) then None
      else Some (cofactor_det J, adjugate_inverse J))"

definition exact_arith :: float64 where
  "exact_arith = \<lparr>f64_dot = dot3, f64_trace = trace3, f64_square = fsquare,
     f64_cbrt = fcbrt, f64_divide = fdiv, f64_add = fadd, f64_lu = exact_lu\<rparr>"

text \<open>
  A gradient operator to run the evaluator on concrete meshes: that of the reference
  tetrahedron with vertices 0, e1, e2, e3, whose rows are the three edge vectors out of
  the first vertex.
\<close>

definition vsub3 :: "vec3 \<Rightarrow> vec3 \<Rightarrow> vec3" where
  "vsub3 u v =
     (case u of (u1, u2, u3) \<Rightarrow> case v of (v1, v2, v3) \<Rightarrow>
        (fsub u1 v1, fsub u2 v2, fsub u3 v3))"

definition edge_gradient :: "mat43 \<Rightarrow> mat3" where
  "edge_gradient V = (case V of (p0, p1, p2, p3) \<Rightarrow> (vsub3 p1 p0, vsub3 p2 p0, vsub3 p3 p0))"

definition pt :: "real \<Rightarrow> real \<Rightarrow> real \<Rightarrow> vec3" where
  "pt x y z = (Fin x, Fin y, Fin z)"

definition no_geometry :: geometry where
  "no_geometry = \<lparr>geo_orientation = [], geo_inradius = [], geo_circumradius = [],
     geo_dihedral_angle = [], geo_radius_edge_ratio = [], geo_edge_ratio = []\<rparr>"

definition empty_mesh :: mesh where
  "empty_mesh = \<lparr>vertices = [], voxels = [], vertex_per_voxel = 4,
     geometry = no_geometry, attributes = Map.empty\<rparr>"

text \<open>One tetrahedron on the given four points, with the given provider values.\<close>

definition one_tet :: "vec3 list \<Rightarrow> geometry \<Rightarrow> mesh" where
  "one_tet ps g = \<lparr>vertices = ps, voxels = [[0, 1, 2, 3]], vertex_per_voxel = 4,
     geometry = g, attributes = Map.empty\<rparr>"

definition one_geometry :: "fval \<Rightarrow> fval \<Rightarrow> fval \<Rightarrow> fval list \<Rightarrow> geometry" where
  "one_geometry ori rin rcirc angles = \<lparr>geo_orientation = [ori], geo_inradius = [rin],
     geo_circumradius = [rcirc], geo_dihedral_angle = [angles],
     geo_radius_edge_ratio = [Fin 1], geo_edge_ratio = [Fin 1]\<rparr>"

definition corner_points :: "vec3 list" where
  "corner_points = [pt 0 0 0, pt 1 0 0, pt 0 1 0, pt 0 0 1]"

definition flat_points :: "vec3 list" where
  "flat_points = [pt 0 0 0, pt 1 0 0, pt 0 1 0, pt 1 1 0]"

definition six_angles :: "fval list" where
  "six_angles = [Fin 1, Fin 2, Fin (1/2), Fin 3, Fin 1, Fin 2]"

definition corner_tet :: mesh where
  "corner_tet = one_tet corner_points (one_geometry (Fin (1/6)) (Fin 1) (Fin 4) six_angles)"

definition flat_tet :: mesh where
  "flat_tet = one_tet flat_points (one_geometry (Fin 0) (Fin 0) (Fin 0) six_angles)"

definition nan_orientation_tet :: mesh where
  "nan_orientation_tet = one_tet corner_points (one_geometry NaN (Fin 1) (Fin 4) six_angles)"

text \<open>A thin tetrahedron, whose deformation gradient has determinant 1/1024.\<close>

definition sliver_points :: "vec3 list" where
  "sliver_points = [pt 0 0 0, pt (1/1024) 0 0, pt 0 1 0, pt 0 0 1]"

definition sliver_tet :: mesh where
  "sliver_tet = one_tet sliver_points (one_geometry (Fin (1/6144)) (Fin 1) (Fin 4) six_angles)"

text \<open>
  A tetrahedron whose inverse overflows. With \<open>a = 1 / 2 ^ 1000\<close> and \<open>u = 1 / 2 ^ 1052\<close>,
  its deformation gradient under \<open>edge_gradient\<close> has the rows \<open>(1, -1, -a)\<close>,
  \<open>(0, 1, -a)\<close> and \<open>(-1/2, 0, a + u)\<close>, all binary64 numbers. LU factorisation with
  partial pivoting needs no row exchange and no rounding: the multipliers are \<open>0\<close>,
  \<open>-1/2\<close> and \<open>-1/2\<close>, the pivots are \<open>1\<close>, \<open>1\<close> and \<open>(a + u) - a/2 - a/2 = u\<close>. The
  determinant \<open>u\<close> is a binary64 number, not zero. In the back substitution for each
  column of the inverse the last unknown is \<open>1/2\<close> or \<open>1\<close> over \<open>u\<close>, at least
  \<open>2 ^ 1051\<close>, which overflows to plus infinity; the second unknown is a finite number
  plus \<open>a\<close> times the last, and the first is a finite number plus the second plus \<open>a\<close>
  times the last, hence both are plus infinity as well. So numpy returns the
  determinant \<open>u\<close> and the inverse whose nine entries are plus infinity. \<open>overflowing\<close>
  is the arithmetic without rounding with that outcome at this matrix.
\<close>

definition eps_a :: real where
  "eps_a = 1 / 2 ^ 1000"

definition eps_u :: real where
  "eps_u = 1 / 2 ^ 1052"

definition thin_J :: mat3 where
  "thin_J = ((Fin 1, Fin (- 1), Fin (- eps_a)),
             (Fin 0, Fin 1, Fin (- eps_a)),
             (Fin (- (1/2)), Fin 0, Fin (eps_a + eps_u)))"

definition thin_points :: "vec3 list" where
  "thin_points = [pt 0 0 0, pt 1 (- 1) (- eps_a), pt 0 1 (- eps_a),
                  pt (- (1/2)) 0 (eps_a + eps_u)]"

definition thin_tet :: mesh where
  "thin_tet = one_tet thin_points (one_geometry (Fin eps_u) (Fin 1) (Fin 4) six_angles)"

definition overflowing_lu :: "mat3 \<Rightarrow> (fval \<times> mat3) option" where
  "overflowing_lu J = (if J = thin_J then Some (Fin eps_u, full3 PInf) else exact_lu J)"

definition overflowing :: float64 where
  "overflowing = exact_arith\<lparr>f64_lu := overflowing_lu\<rparr>"

text \<open>Two tetrahedra with all the attributes of the table already stored.\<close>

definition two_tets :: mesh where
  "two_tets = \<lparr>vertices = [pt 0 0 0, pt 1 0 0, pt 0 1 0, pt 0 0 1, pt 1 1 1],
     voxels = [[0, 1, 2, 3], [1, 2, 3, 4]], vertex_per_voxel = 4,
     geometry = no_geometry,
     attributes = map_of
       [(''voxel_edge_ratio'', FloatArray [Fin 1, Fin 2]),
        (''radius_ratio'', FloatArray [Fin (1/4), Fin (1/3)]),
        (''voxel_min_dihedral_angle'', FloatArray [Fin (1/2), Fin 1]),
        (''voxel_max_dihedral_angle'', FloatArray [Fin 3, Fin 2]),
        (''voxel_radius_edge_ratio'', FloatArray [Fin 1, Fin 1]),
        (''conformal_AMIPS'', FloatArray [Fin 3, PInf]),
        (''symmetric_Dirichlet'', FloatArray [Fin 6, NaN]),
        (''orientations'', FloatArray [Fin 1, Fin (- 1)])]\<rparr>"

text \<open>A loader that finds the one-tetrahedron mesh under every path.\<close>

definition load_corner :: "string \<Rightarrow> error + mesh" where
  "load_corner path = Inr corner_tet"

definition bogus_args :: args where
  "bogus_args = \<lparr>arg_log = ''bogus'', arg_csv = None, arg_input_mesh = ''in.msh'',
     arg_output_mesh = ''out.msh''\<rparr>"

definition no_world :: world where
  "no_world = \<lparr>csv_files = no_files, saved_meshes = Map.empty, logged = [],
     log_level = None\<rparr>"

text \<open>A mesh of one hexahedron.\<close>

definition hex_mesh :: mesh where
  "hex_mesh = \<lparr>vertices = [pt 0 0 0, pt 1 0 0, pt 1 1 0, pt 0 1 0,
                            pt 0 0 1, pt 1 0 1, pt 1 1 1, pt 0 1 1],
     voxels = [[0, 1, 2, 3, 4, 5, 6, 7]], vertex_per_voxel = 8,
     geometry = no_geometry, attributes = Map.empty\<rparr>"

section \<open>Signs\<close>

text \<open>A value that is not below zero: a finite number from zero on, plus infinity, or NaN.\<close>

fun not_negative :: "fval \<Rightarrow> bool" where
  "not_negative (Fin x) = (0 \<le> x)"
| "not_negative PInf = True"
| "not_negative NInf = False"
| "not_negative NaN = True"

text \<open>
  The rules of IEEE arithmetic that make a zero determinant show in the energies. The
  square of a zero is plus zero and so is its cube root, and a quotient by plus zero is
  as the IEEE table has it: an infinity with the sign of a nonzero numerator, NaN for a
  zero or a NaN. The squared Frobenius norm of the matrix of infinities is plus
  infinity, and a sum with plus infinity is plus infinity, or NaN for a summand that is
  NaN or minus infinity. The squared Frobenius norm of a matrix, a sum of rounded
  squares, is not negative.
\<close>

definition special_values :: "float64 \<Rightarrow> bool" where
  "special_values np =
     ((\<forall>a. f64_divide np a (f64_cbrt np (f64_square np (Fin 0))) = fdiv a (Fin 0)) \<and>
      (\<forall>a. f64_add np a (f64_trace np (f64_dot np (transpose3 (full3 PInf)) (full3 PInf)))
            = fadd a PInf) \<and>
      (\<forall>J. not_negative (f64_trace np (f64_dot np (transpose3 J) J))))"

section \<open>Reading the result of a run\<close>

text \<open>
  The attribute stored under a name once the evaluator has returned, and nothing when
  it has raised.
\<close>

definition stored :: "error + (mesh \<times> warning list) \<Rightarrow> string \<Rightarrow> attr option" where
  "stored r name = (case r of Inl e \<Rightarrow> None | Inr (m, w) \<Rightarrow> attributes m name)"

section \<open>Basic facts\<close>

lemma bind_err_Inr_iff: "bind_err r f = Inr y \<longleftrightarrow> (\<exists>v. r = Inr v \<and> f v = Inr y)"
  by (cases r) (simp_all add: bind_err_def)

lemma bind_err_Inl_iff:
  "bind_err r f = Inl e \<longleftrightarrow> r = Inl e \<or> (\<exists>v. r = Inr v \<and> f v = Inl e)"
  by (cases r) (simp_all add: bind_err_def)

lemma bind_err_Inr [simp]: "bind_err (Inr v) f = f v"
  by (simp add: bind_err_def)

lemma sequence_err_map_Inr: "sequence_err (map Inr vs) = Inr vs"
  by (induction vs) simp_all

lemma sequence_err_Inr_D: "sequence_err xs = Inr vs \<Longrightarrow> xs = map Inr vs"
  by (induction xs arbitrary: vs) (auto split: sum.splits)

lemma sequence_err_Inl: "sequence_err xs = Inl e \<Longrightarrow> Inl e \<in> set xs"
  by (induction xs) (auto split: sum.splits)

lemma sequence_err_all_Inr:
  assumes "\<And>x. x \<in> set xs \<Longrightarrow> f x = Inr (g x)"
  shows "sequence_err (map f xs) = Inr (map g xs)"
proof -
  have "map f xs = map Inr (map g xs)"
    using assms by simp
  then show ?thesis
    by (simp only: sequence_err_map_Inr)
qed

lemma np_binary_same_length:
  "length xs = length ys \<Longrightarrow> np_binary f xs ys = Inr (map2 f xs ys)"
  by (simp add: np_binary_def)

lemma np_binary_Inl: "np_binary f xs ys = Inl e \<Longrightarrow> e = ValueError"
  by (auto simp: np_binary_def split: if_splits)

lemma count_nonzero_map: "count_nonzero (map P xs) = length (filter P xs)"
  by (induction xs) (simp_all add: count_nonzero_def)

lemma attributes_set_add:
  "attributes (set_attribute n a (add_attribute n m)) = (attributes m)(n \<mapsto> a)"
  by (auto simp: set_attribute_def add_attribute_def split: option.splits)

subsection \<open>Special values\<close>

lemma isfinite_iff: "isfinite a \<longleftrightarrow> (\<exists>x. a = Fin x)"
  by (cases a) simp_all

lemma isfinite_fneg [simp]: "isfinite (fneg a) = isfinite a"
  by (cases a) simp_all

lemma isfinite_fadd [simp]: "isfinite (fadd a b) \<longleftrightarrow> isfinite a \<and> isfinite b"
  by (cases a; cases b) simp_all

lemma isfinite_fsub [simp]: "isfinite (fsub a b) \<longleftrightarrow> isfinite a \<and> isfinite b"
  by (simp add: fsub_def)

lemma isfinite_fmul [simp]: "isfinite (fmul a b) \<longleftrightarrow> isfinite a \<and> isfinite b"
  by (cases a; cases b) (simp_all add: inf_of_sign_def)

lemma fdiv_by_zero: "fdiv a (Fin 0) = (case a of Fin x \<Rightarrow> inf_of_sign x | _ \<Rightarrow> a)"
  by (cases a) simp_all

lemma fdiv_by_zero_not_finite: "\<not> isfinite (fdiv a (Fin 0))"
  by (cases a) (simp_all add: inf_of_sign_def)

section \<open>The intermediate arrays and the result of the evaluator\<close>

lemma invert_J_det: "invert_J np (J, linalg_det np J) = Inr (spec_J_inv np J)"
  by (cases "f64_lu np J")
     (auto simp: invert_J_def linalg_inv_def linalg_det_def spec_J_inv_def fp_eq_def)

lemma vertex_block_ok:
  assumes "length tet = 4" and "list_all (\<lambda>i. i < length vs) tet"
  shows "vertex_block vs tet = Inr (vs ! (tet ! 0), vs ! (tet ! 1), vs ! (tet ! 2), vs ! (tet ! 3))"
proof -
  from assms(1) obtain a b c d where tet: "tet = [a, b, c, d]"
    by (auto simp: length_Suc_conv numeral_eq_Suc)
  with assms(2) show ?thesis
    by (simp add: vertex_block_def)
qed

lemma vertex_block_Inr_D:
  assumes "vertex_block vs tet = Inr V"
  shows "length tet = 4 \<and> list_all (\<lambda>i. i < length vs) tet"
  using assms
  by (auto simp: vertex_block_def list_all_iff list_ex_iff split: if_splits list.splits)

lemma sequence_invert_J:
  "sequence_err (map (invert_J np) (zip Js (map (linalg_det np) Js))) = Inr (map (spec_J_inv np) Js)"
proof -
  have "map (invert_J np) (zip Js (map (linalg_det np) Js)) = map Inr (map (spec_J_inv np) Js)"
    by (induction Js) (simp_all add: invert_J_det)
  then show ?thesis
    by (simp only: sequence_err_map_Inr)
qed

lemma jacobians_result:
  assumes "jacobians np G mesh = Inr (Js, J_F, J_det, J_inv, J_inv_F)"
  shows "sequence_err (map (vertex_block (vertices mesh)) (voxels mesh))
           = Inr (map (tet_block mesh) [0 ..< num_voxels mesh])"
    and "Js = map (\<lambda>t. G (tet_block mesh t)) [0 ..< num_voxels mesh]"
    and "J_F = map (frobenius np) Js"
    and "J_det = map (linalg_det np) Js"
    and "J_inv = map (spec_J_inv np) Js"
    and "J_inv_F = map (frobenius np) J_inv"
proof -
  from assms obtain blocks where
    b: "sequence_err (map (vertex_block (vertices mesh)) (voxels mesh)) = Inr blocks"
    and r: "Js = map G blocks" "J_F = map (frobenius np) Js" "J_det = map (linalg_det np) Js"
       "sequence_err (map (invert_J np) (zip Js J_det)) = Inr J_inv" "J_inv_F = map (frobenius np) J_inv"
    unfolding jacobians_def Let_def by (auto simp: bind_err_Inr_iff)
  from b have m: "map (vertex_block (vertices mesh)) (voxels mesh) = map Inr blocks"
    by (rule sequence_err_Inr_D)
  then have len: "length blocks = num_voxels mesh"
    by (metis length_map num_voxels_def)
  have "blocks ! t = tet_block mesh t" if "t < num_voxels mesh" for t
  proof -
    from that have "vertex_block (vertices mesh) (voxels mesh ! t) = Inr (blocks ! t)"
      using m len by (metis nth_map num_voxels_def)
    moreover from this have "length (voxels mesh ! t) = 4 \<and>
        list_all (\<lambda>i. i < length (vertices mesh)) (voxels mesh ! t)"
      by (rule vertex_block_Inr_D)
    ultimately show ?thesis
      by (simp add: vertex_block_ok tet_block_def)
  qed
  with len have blocks: "blocks = map (tet_block mesh) [0 ..< num_voxels mesh]"
    by (simp add: list_eq_iff_nth_eq)
  with b show "sequence_err (map (vertex_block (vertices mesh)) (voxels mesh))
           = Inr (map (tet_block mesh) [0 ..< num_voxels mesh])" by simp
  from blocks r(1) show "Js = map (\<lambda>t. G (tet_block mesh t)) [0 ..< num_voxels mesh]" by simp
  show "J_F = map (frobenius np) Js" "J_det = map (linalg_det np) Js" "J_inv_F = map (frobenius np) J_inv"
    by fact+
  from r(3,4) show "J_inv = map (spec_J_inv np) Js"
    by (simp add: sequence_invert_J)
qed

lemma jacobians_total:
  assumes "voxels_ok mesh" and "0 < num_voxels mesh \<longrightarrow> vertex_per_voxel mesh = 4"
  shows "\<exists>Js. jacobians np G mesh =
          Inr (Js, map (frobenius np) Js, map (linalg_det np) Js, map (spec_J_inv np) Js,
               map (frobenius np) (map (spec_J_inv np) Js))"
proof -
  have "vertex_block (vertices mesh) tet
          = Inr (vertices mesh ! (tet ! 0), vertices mesh ! (tet ! 1),
                 vertices mesh ! (tet ! 2), vertices mesh ! (tet ! 3))"
    if "tet \<in> set (voxels mesh)" for tet
  proof -
    from that have "0 < num_voxels mesh"
      by (auto simp: num_voxels_def)
    with assms that have "length tet = 4" "list_all (\<lambda>i. i < length (vertices mesh)) tet"
      by (auto simp: voxels_ok_def list_all_iff)
    then show ?thesis by (rule vertex_block_ok)
  qed
  then have "sequence_err (map (vertex_block (vertices mesh)) (voxels mesh))
     = Inr (map (\<lambda>tet. (vertices mesh ! (tet ! 0), vertices mesh ! (tet ! 1),
                 vertices mesh ! (tet ! 2), vertices mesh ! (tet ! 3))) (voxels mesh))"
    by (rule sequence_err_all_Inr)
  then show ?thesis
    unfolding jacobians_def Let_def
    by (simp only: bind_err_Inr sequence_invert_J) blast
qed

lemma map2_maps: "map2 f (map g xs) (map h xs) = map (\<lambda>x. f (g x) (h x)) xs"
  by (induction xs) simp_all

lemma np_binary_maps:
  "np_binary f (map g xs) (map h xs) = Inr (map (\<lambda>x. f (g x) (h x)) xs)"
  by (simp add: np_binary_same_length map2_maps del: map_map)

lemma cde_result:
  assumes "compute_distortion_energies np G mesh = Inr (m', w)"
  shows "\<exists>Js J_F J_det J_inv J_inv_F.
     jacobians np G mesh = Inr (Js, J_F, J_det, J_inv, J_inv_F) \<and>
     attributes m' = (attributes mesh)
        (''conformal_AMIPS'' \<mapsto> FloatArray (map (amips_of np) Js),
         ''finite_conformal_AMIPS'' \<mapsto> BoolArray (map isfinite (map (amips_of np) Js)),
         ''symmetric_Dirichlet'' \<mapsto> FloatArray (map (dirichlet_of np) Js),
         ''finite_symmetric_Dirichlet'' \<mapsto> BoolArray (map isfinite (map (dirichlet_of np) Js)),
         ''orientations'' \<mapsto> FloatArray (quantize_orientations (get_tet_orientations mesh))) \<and>
     w = warn_if_positive ''degenerate tets: ''
           (length (filter (\<lambda>x. fp_eq x (Fin 0)) (quantize_orientations (get_tet_orientations mesh))))
         @ warn_if_positive ''inverted tets: ''
           (length (filter (\<lambda>x. fp_lt x (Fin 0)) (quantize_orientations (get_tet_orientations mesh))))
         @ warn_if_positive ''Non-finite conformal AMIPS: ''
           (length (filter (\<lambda>x. \<not> isfinite x) (map (amips_of np) Js)))
         @ warn_if_positive ''Non-finite symmetric Dirichlet: ''
           (length (filter (\<lambda>x. \<not> isfinite x) (map (dirichlet_of np) Js)))"
proof -
  from assms obtain Js J_F J_det J_inv J_inv_F amips dir where
    j: "jacobians np G mesh = Inr (Js, J_F, J_det, J_inv, J_inv_F)"
    and a: "np_binary (f64_divide np) J_F (map (f64_cbrt np) (map (f64_square np) J_det))
              = Inr amips"
    and d: "np_binary (f64_add np) J_F J_inv_F = Inr dir"
    and m: "attributes m' = (attributes mesh)
        (''conformal_AMIPS'' \<mapsto> FloatArray amips,
         ''finite_conformal_AMIPS'' \<mapsto> BoolArray (map isfinite amips),
         ''symmetric_Dirichlet'' \<mapsto> FloatArray dir,
         ''finite_symmetric_Dirichlet'' \<mapsto> BoolArray (map isfinite dir),
         ''orientations'' \<mapsto> FloatArray (quantize_orientations (get_tet_orientations mesh)))"
    and w: "w = warn_if_positive ''degenerate tets: ''
           (count_nonzero (map (\<lambda>x. fp_eq x (Fin 0)) (quantize_orientations (get_tet_orientations mesh))))
         @ warn_if_positive ''inverted tets: ''
           (count_nonzero (map (\<lambda>x. fp_lt x (Fin 0)) (quantize_orientations (get_tet_orientations mesh))))
         @ warn_if_positive ''Non-finite conformal AMIPS: ''
           (count_nonzero (map Not (map isfinite amips)))
         @ warn_if_positive ''Non-finite symmetric Dirichlet: ''
           (count_nonzero (map Not (map isfinite dir)))"
    unfolding compute_distortion_energies_def Let_def
    by (auto simp: bind_err_Inr_iff attributes_set_add split: if_splits)
  note r = jacobians_result[OF j]
  have "map (f64_cbrt np) (map (f64_square np) J_det)
          = map (\<lambda>J. f64_cbrt np (f64_square np (linalg_det np J))) Js"
    by (simp add: r(4))
  with a have amips: "amips = map (amips_of np) Js"
    unfolding r(3) by (simp add: np_binary_maps amips_of_def[abs_def] del: map_map)
  have "J_inv_F = map (\<lambda>J. frobenius np (spec_J_inv np J)) Js"
    by (simp add: r(5,6))
  with d have dir: "dir = map (dirichlet_of np) Js"
    unfolding r(3) by (simp add: np_binary_maps dirichlet_of_def[abs_def] del: map_map)
  show ?thesis
    using j m w unfolding amips dir
    by (simp add: count_nonzero_map filter_map comp_def)
qed

lemma cde_total:
  assumes "voxels_ok mesh" and "0 < num_voxels mesh \<longrightarrow> vertex_per_voxel mesh = 4"
  shows "\<exists>m' w. compute_distortion_energies np G mesh = Inr (m', w)"
proof -
  from jacobians_total[OF assms] obtain Js where
    "jacobians np G mesh = Inr (Js, map (frobenius np) Js, map (linalg_det np) Js, map (spec_J_inv np) Js,
               map (frobenius np) (map (spec_J_inv np) Js))"
    by blast
  with assms(2) show ?thesis
    unfolding compute_distortion_energies_def Let_def
    by (auto simp add: np_binary_def)
qed

lemma cde_length:
  assumes "jacobians np G mesh = Inr (Js, J_F, J_det, J_inv, J_inv_F)"
  shows "length Js = num_voxels mesh"
  using jacobians_result(2)[OF assms] by simp

lemma cde_explicit:
  assumes "voxels_ok mesh" and "0 < num_voxels mesh \<longrightarrow> vertex_per_voxel mesh = 4"
  shows "\<exists>m' w Js.
     compute_distortion_energies np G mesh = Inr (m', w) \<and>
     Js = map (\<lambda>t. G (tet_block mesh t)) [0 ..< num_voxels mesh] \<and>
     attributes m' = (attributes mesh)
        (''conformal_AMIPS'' \<mapsto> FloatArray (map (amips_of np) Js),
         ''finite_conformal_AMIPS'' \<mapsto> BoolArray (map isfinite (map (amips_of np) Js)),
         ''symmetric_Dirichlet'' \<mapsto> FloatArray (map (dirichlet_of np) Js),
         ''finite_symmetric_Dirichlet'' \<mapsto> BoolArray (map isfinite (map (dirichlet_of np) Js)),
         ''orientations'' \<mapsto> FloatArray (quantize_orientations (get_tet_orientations mesh))) \<and>
     w = warn_if_positive ''degenerate tets: ''
           (length (filter (\<lambda>x. fp_eq x (Fin 0)) (quantize_orientations (get_tet_orientations mesh))))
         @ warn_if_positive ''inverted tets: ''
           (length (filter (\<lambda>x. fp_lt x (Fin 0)) (quantize_orientations (get_tet_orientations mesh))))
         @ warn_if_positive ''Non-finite conformal AMIPS: ''
           (length (filter (\<lambda>x. \<not> isfinite x) (map (amips_of np) Js)))
         @ warn_if_positive ''Non-finite symmetric Dirichlet: ''
           (length (filter (\<lambda>x. \<not> isfinite x) (map (dirichlet_of np) Js)))"
proof -
  from cde_total[OF assms] obtain m' w where
    r: "compute_distortion_energies np G mesh = Inr (m', w)"
    by blast
  from cde_result[OF r] obtain Js J_F J_det J_inv J_inv_F where
    j: "jacobians np G mesh = Inr (Js, J_F, J_det, J_inv, J_inv_F)"
    and rest: "attributes m' = (attributes mesh)
        (''conformal_AMIPS'' \<mapsto> FloatArray (map (amips_of np) Js),
         ''finite_conformal_AMIPS'' \<mapsto> BoolArray (map isfinite (map (amips_of np) Js)),
         ''symmetric_Dirichlet'' \<mapsto> FloatArray (map (dirichlet_of np) Js),
         ''finite_symmetric_Dirichlet'' \<mapsto> BoolArray (map isfinite (map (dirichlet_of np) Js)),
         ''orientations'' \<mapsto> FloatArray (quantize_orientations (get_tet_orientations mesh)))"
     "w = warn_if_positive ''degenerate tets: ''
           (length (filter (\<lambda>x. fp_eq x (Fin 0)) (quantize_orientations (get_tet_orientations mesh))))
         @ warn_if_positive ''inverted tets: ''
           (length (filter (\<lambda>x. fp_lt x (Fin 0)) (quantize_orientations (get_tet_orientations mesh))))
         @ warn_if_positive ''Non-finite conformal AMIPS: ''
           (length (filter (\<lambda>x. \<not> isfinite x) (map (amips_of np) Js)))
         @ warn_if_positive ''Non-finite symmetric Dirichlet: ''
           (length (filter (\<lambda>x. \<not> isfinite x) (map (dirichlet_of np) Js)))"
    by blast
  from jacobians_result(2)[OF j] r rest show ?thesis
    by blast
qed

subsection \<open>Runs on the concrete meshes\<close>

lemma one_tet_facts:
  "voxels_ok (one_tet [p0, p1, p2, p3] g)"
  "num_voxels (one_tet ps g) = 1"
  "vertex_per_voxel (one_tet ps g) = 4"
  "tet_block (one_tet [p0, p1, p2, p3] g) 0 = (p0, p1, p2, p3)"
  "attributes (one_tet ps g) = Map.empty"
  "get_tet_orientations (one_tet ps (one_geometry ori rin rcirc angles)) = [ori]"
  by (simp_all add: one_tet_def voxels_ok_def num_voxels_def tet_block_def
      get_tet_orientations_def one_geometry_def)

lemma one_tet_run:
  "\<exists>m'. compute_distortion_energies np G
           (one_tet [p0, p1, p2, p3] (one_geometry ori rin rcirc angles)) =
          Inr (m',
            warn_if_positive ''degenerate tets: ''
              (length (filter (\<lambda>x. fp_eq x (Fin 0)) (quantize_orientations [ori])))
            @ warn_if_positive ''inverted tets: ''
              (length (filter (\<lambda>x. fp_lt x (Fin 0)) (quantize_orientations [ori])))
            @ warn_if_positive ''Non-finite conformal AMIPS: ''
              (length (filter (\<lambda>x. \<not> isfinite x) [amips_of np (G (p0, p1, p2, p3))]))
            @ warn_if_positive ''Non-finite symmetric Dirichlet: ''
              (length (filter (\<lambda>x. \<not> isfinite x) [dirichlet_of np (G (p0, p1, p2, p3))]))) \<and>
        attributes m' = 
          [''conformal_AMIPS'' \<mapsto> FloatArray [amips_of np (G (p0, p1, p2, p3))],
           ''finite_conformal_AMIPS'' \<mapsto> BoolArray [isfinite (amips_of np (G (p0, p1, p2, p3)))],
           ''symmetric_Dirichlet'' \<mapsto> FloatArray [dirichlet_of np (G (p0, p1, p2, p3))],
           ''finite_symmetric_Dirichlet'' \<mapsto> BoolArray [isfinite (dirichlet_of np (G (p0, p1, p2, p3)))],
           ''orientations'' \<mapsto> FloatArray (quantize_orientations [ori])]"
proof -
  let ?m = "one_tet [p0, p1, p2, p3] (one_geometry ori rin rcirc angles)"
  have "voxels_ok ?m" "0 < num_voxels ?m \<longrightarrow> vertex_per_voxel ?m = 4"
    by (simp_all add: one_tet_facts)
  from cde_explicit[OF this, of np G] obtain m' w Js where
    r: "compute_distortion_energies np G ?m = Inr (m', w)"
    and Js: "Js = map (\<lambda>t. G (tet_block ?m t)) [0 ..< num_voxels ?m]"
    and a: "attributes m' = (attributes ?m)
        (''conformal_AMIPS'' \<mapsto> FloatArray (map (amips_of np) Js),
         ''finite_conformal_AMIPS'' \<mapsto> BoolArray (map isfinite (map (amips_of np) Js)),
         ''symmetric_Dirichlet'' \<mapsto> FloatArray (map (dirichlet_of np) Js),
         ''finite_symmetric_Dirichlet'' \<mapsto> BoolArray (map isfinite (map (dirichlet_of np) Js)),
         ''orientations'' \<mapsto> FloatArray (quantize_orientations (get_tet_orientations ?m)))"
    and w: "w = warn_if_positive ''degenerate tets: ''
           (length (filter (\<lambda>x. fp_eq x (Fin 0)) (quantize_orientations (get_tet_orientations ?m))))
         @ warn_if_positive ''inverted tets: ''
           (length (filter (\<lambda>x. fp_lt x (Fin 0)) (quantize_orientations (get_tet_orientations ?m))))
         @ warn_if_positive ''Non-finite conformal AMIPS: ''
           (length (filter (\<lambda>x. \<not> isfinite x) (map (amips_of np) Js)))
         @ warn_if_positive ''Non-finite symmetric Dirichlet: ''
           (length (filter (\<lambda>x. \<not> isfinite x) (map (dirichlet_of np) Js)))"
    by blast
  have Js1: "Js = [G (p0, p1, p2, p3)]"
    unfolding Js by (simp add: one_tet_facts)
  show ?thesis
    using r a w unfolding Js1 one_tet_facts list.map
    by blast
qed

lemma corner_gradient:
  "edge_gradient (pt 0 0 0, pt 1 0 0, pt 0 1 0, pt 0 0 1)
     = ((Fin 1, Fin 0, Fin 0), (Fin 0, Fin 1, Fin 0), (Fin 0, Fin 0, Fin 1))"
  by (simp add: edge_gradient_def vsub3_def pt_def fsub_def)

lemma flat_gradient:
  "edge_gradient (pt 0 0 0, pt 1 0 0, pt 0 1 0, pt 1 1 0)
     = ((Fin 1, Fin 0, Fin 0), (Fin 0, Fin 1, Fin 0), (Fin 1, Fin 1, Fin 0))"
  by (simp add: edge_gradient_def vsub3_def pt_def fsub_def)

lemma exact_arith_simps [simp]:
  "f64_dot exact_arith = dot3"
  "f64_trace exact_arith = trace3"
  "f64_square exact_arith = fsquare"
  "f64_cbrt exact_arith = fcbrt"
  "f64_divide exact_arith = fdiv"
  "f64_add exact_arith = fadd"
  "f64_lu exact_arith = exact_lu"
  by (simp_all add: exact_arith_def)

lemma linalg_det_exact: "linalg_det exact_arith J = cofactor_det J"
  by (cases "cofactor_det J") (simp_all add: linalg_det_def exact_lu_def fp_eq_def)

lemma spec_J_inv_exact:
  "spec_J_inv exact_arith J =
     (if fp_eq (cofactor_det J) (Fin 0) then full3 PInf else adjugate_inverse J)"
  by (simp add: spec_J_inv_def linalg_det_exact linalg_inv_def exact_lu_def)

lemmas energy_defs = amips_of_def dirichlet_of_def frobenius_def dot3_def dot_vec3_def
  linalg_det_exact spec_J_inv_exact adjugate_inverse_def minor2_def fsub_def fsquare_def
  fp_eq_def full3_def inf_of_sign_def

lemma corner_energies:
  "amips_of exact_arith
     ((Fin 1, Fin 0, Fin 0), (Fin 0, Fin 1, Fin 0), (Fin 0, Fin 0, Fin 1)) = Fin 3"
  "dirichlet_of exact_arith
     ((Fin 1, Fin 0, Fin 0), (Fin 0, Fin 1, Fin 0), (Fin 0, Fin 0, Fin 1)) = Fin 6"
  by (simp_all add: energy_defs)

lemma flat_energies:
  "amips_of exact_arith
     ((Fin 1, Fin 0, Fin 0), (Fin 0, Fin 1, Fin 0), (Fin 1, Fin 1, Fin 0)) = PInf"
  "dirichlet_of exact_arith
     ((Fin 1, Fin 0, Fin 0), (Fin 0, Fin 1, Fin 0), (Fin 1, Fin 1, Fin 0)) = PInf"
  by (simp_all add: energy_defs)

lemma quantize_one:
  "quantize_orientations [Fin (1/6)] = [Fin 1]"
  "quantize_orientations [Fin 0] = [Fin 0]"
  "quantize_orientations [NaN] = [NaN]"
  by (simp_all add: quantize_orientations_def set_positive_def set_negative_def fp_gt_def)

lemma corner_tet_run:
  "\<exists>m. compute_distortion_energies exact_arith edge_gradient corner_tet = Inr (m, []) \<and>
       attributes m ''conformal_AMIPS'' = Some (FloatArray [Fin 3]) \<and>
       attributes m ''finite_conformal_AMIPS'' = Some (BoolArray [True]) \<and>
       attributes m ''symmetric_Dirichlet'' = Some (FloatArray [Fin 6]) \<and>
       attributes m ''finite_symmetric_Dirichlet'' = Some (BoolArray [True]) \<and>
       attributes m ''orientations'' = Some (FloatArray [Fin 1])"
  using one_tet_run[of exact_arith edge_gradient "pt 0 0 0" "pt 1 0 0" "pt 0 1 0" "pt 0 0 1"
      "Fin (1/6)" "Fin 1" "Fin 4" six_angles]
  unfolding corner_tet_def corner_points_def corner_gradient corner_energies quantize_one
  by (auto simp: warn_if_positive_def fp_eq_def)

lemma flat_tet_run:
  "\<exists>m. compute_distortion_energies exact_arith edge_gradient flat_tet =
          Inr (m, [(''degenerate tets: '', 1), (''Non-finite conformal AMIPS: '', 1),
                   (''Non-finite symmetric Dirichlet: '', 1)]) \<and>
       attributes m ''conformal_AMIPS'' = Some (FloatArray [PInf]) \<and>
       attributes m ''finite_conformal_AMIPS'' = Some (BoolArray [False]) \<and>
       attributes m ''symmetric_Dirichlet'' = Some (FloatArray [PInf]) \<and>
       attributes m ''finite_symmetric_Dirichlet'' = Some (BoolArray [False]) \<and>
       attributes m ''orientations'' = Some (FloatArray [Fin 0])"
  using one_tet_run[of exact_arith edge_gradient "pt 0 0 0" "pt 1 0 0" "pt 0 1 0" "pt 1 1 0"
      "Fin 0" "Fin 0" "Fin 0" six_angles]
  unfolding flat_tet_def flat_points_def flat_gradient flat_energies quantize_one
  by (auto simp: warn_if_positive_def fp_eq_def)

lemma nan_orientation_tet_run:
  "stored (compute_distortion_energies exact_arith edge_gradient nan_orientation_tet) ''orientations''
     = Some (FloatArray [NaN])"
  using one_tet_run[of exact_arith edge_gradient "pt 0 0 0" "pt 1 0 0" "pt 0 1 0" "pt 0 0 1"
      NaN "Fin 1" "Fin 4" six_angles]
  unfolding nan_orientation_tet_def corner_points_def quantize_one
  by (auto simp: stored_def)

section \<open>Finiteness flags\<close>

text \<open>
  Claim C1. After the Distortion Energy Evaluator has run, the arrays stored under
  \<^verbatim>\<open>conformal_AMIPS\<close> and \<^verbatim>\<open>finite_conformal_AMIPS\<close> have one entry per tetrahedron, and at
  every tetrahedron the stored flag is \<open>isfinite\<close> of the stored value; the same holds
  for \<^verbatim>\<open>symmetric_Dirichlet\<close> and \<^verbatim>\<open>finite_symmetric_Dirichlet\<close>.
\<close>

theorem flags_agree_with_values:
  assumes "compute_distortion_energies np G mesh = Inr (m', w)"
  shows "\<exists>amips fa dir fd.
     attributes m' ''conformal_AMIPS'' = Some (FloatArray amips) \<and>
     attributes m' ''finite_conformal_AMIPS'' = Some (BoolArray fa) \<and>
     attributes m' ''symmetric_Dirichlet'' = Some (FloatArray dir) \<and>
     attributes m' ''finite_symmetric_Dirichlet'' = Some (BoolArray fd) \<and>
     length amips = num_voxels mesh \<and> length fa = num_voxels mesh \<and>
     length dir = num_voxels mesh \<and> length fd = num_voxels mesh \<and>
     (\<forall>i < num_voxels mesh. fa ! i = isfinite (amips ! i) \<and> fd ! i = isfinite (dir ! i))"
proof -
  from cde_result[OF assms] obtain Js J_F J_det J_inv J_inv_F where
    j: "jacobians np G mesh = Inr (Js, J_F, J_det, J_inv, J_inv_F)"
    and a: "attributes m' = (attributes mesh)
        (''conformal_AMIPS'' \<mapsto> FloatArray (map (amips_of np) Js),
         ''finite_conformal_AMIPS'' \<mapsto> BoolArray (map isfinite (map (amips_of np) Js)),
         ''symmetric_Dirichlet'' \<mapsto> FloatArray (map (dirichlet_of np) Js),
         ''finite_symmetric_Dirichlet'' \<mapsto> BoolArray (map isfinite (map (dirichlet_of np) Js)),
         ''orientations'' \<mapsto> FloatArray (quantize_orientations (get_tet_orientations mesh)))"
    by blast
  have len: "length Js = num_voxels mesh"
    using j by (rule cde_length)
  show ?thesis
    apply (rule exI[of _ "map (amips_of np) Js"])
    apply (rule exI[of _ "map isfinite (map (amips_of np) Js)"])
    apply (rule exI[of _ "map (dirichlet_of np) Js"])
    apply (rule exI[of _ "map isfinite (map (dirichlet_of np) Js)"])
    using len by (simp add: a)
qed

theorem flags_agree_with_values_witness:
  "\<exists>m' w. compute_distortion_energies exact_arith edge_gradient flat_tet = Inr (m', w) \<and>
     attributes m' ''conformal_AMIPS'' = Some (FloatArray [PInf]) \<and>
     attributes m' ''finite_conformal_AMIPS'' = Some (BoolArray [False]) \<and>
     (\<exists>amips fa dir fd.
       attributes m' ''conformal_AMIPS'' = Some (FloatArray amips) \<and>
       attributes m' ''finite_conformal_AMIPS'' = Some (BoolArray fa) \<and>
       attributes m' ''symmetric_Dirichlet'' = Some (FloatArray dir) \<and>
       attributes m' ''finite_symmetric_Dirichlet'' = Some (BoolArray fd) \<and>
       length amips = num_voxels flat_tet \<and> length fa = num_voxels flat_tet \<and>
       length dir = num_voxels flat_tet \<and> length fd = num_voxels flat_tet \<and>
       (\<forall>i < num_voxels flat_tet. fa ! i = isfinite (amips ! i) \<and> fd ! i = isfinite (dir ! i)))"
proof -
  from flat_tet_run obtain m w where
    r: "compute_distortion_energies exact_arith edge_gradient flat_tet = Inr (m, w)"
    and v: "attributes m ''conformal_AMIPS'' = Some (FloatArray [PInf])"
       "attributes m ''finite_conformal_AMIPS'' = Some (BoolArray [False])"
    by blast
  from flags_agree_with_values[OF r] r v show ?thesis
    by blast
qed

section \<open>Orientations\<close>

lemma quantize_nth:
  "i < length os \<Longrightarrow> quantize_orientations os ! i =
     (if fp_gt (os ! i) (Fin 0) then Fin 1
      else if fp_lt (os ! i) (Fin 0) then Fin (- 1) else os ! i)"
  by (simp add: quantize_orientations_def set_negative_def set_positive_def fp_gt_def)

lemma quantize_length [simp]: "length (quantize_orientations os) = length os"
  by (simp add: quantize_orientations_def set_negative_def set_positive_def)

lemma sign_cases: "x \<noteq> NaN \<Longrightarrow> fp_gt x (Fin 0) \<or> fp_lt x (Fin 0) \<or> x = Fin 0"
  by (cases x) (auto simp: fp_gt_def)

text \<open>
  Claim C2, as stated, fails: a NaN that the provider supplies for a tetrahedron is
  neither greater nor less than zero, so both masked assignments leave it, and the
  stored orientation is NaN, which is none of -1, 0 and +1.
\<close>

theorem orientation_not_quantized_counterexample:
  "stored (compute_distortion_energies exact_arith edge_gradient nan_orientation_tet) ''orientations''
     = Some (FloatArray [NaN]) \<and>
   get_tet_orientations nan_orientation_tet = [NaN] \<and>
   NaN \<notin> {Fin (- 1), Fin 0, Fin 1}"
  using nan_orientation_tet_run
  by (simp add: nan_orientation_tet_def one_tet_facts)

text \<open>
  Claim C2, amended. For every tetrahedron whose raw orientation is not NaN, the stored
  orientation is exactly one of -1, 0 and +1: +1 for a positive raw value, -1 for a
  negative one. For every raw value, NaN included, the stored orientation compares
  equal to zero iff the raw value does.
\<close>

theorem orientation_quantized:
  assumes "compute_distortion_energies np G mesh = Inr (m', w)"
  shows "\<exists>os. attributes m' ''orientations'' = Some (FloatArray os) \<and>
     length os = length (get_tet_orientations mesh) \<and>
     (\<forall>i < length os.
        (get_tet_orientations mesh ! i \<noteq> NaN \<longrightarrow> os ! i \<in> {Fin (- 1), Fin 0, Fin 1}) \<and>
        (fp_gt (get_tet_orientations mesh ! i) (Fin 0) \<longrightarrow> os ! i = Fin 1) \<and>
        (fp_lt (get_tet_orientations mesh ! i) (Fin 0) \<longrightarrow> os ! i = Fin (- 1)) \<and>
        (fp_eq (os ! i) (Fin 0) \<longleftrightarrow> fp_eq (get_tet_orientations mesh ! i) (Fin 0)))"
proof -
  let ?raw = "get_tet_orientations mesh"
  from cde_result[OF assms] have
    a: "attributes m' ''orientations'' = Some (FloatArray (quantize_orientations ?raw))"
    by auto
  have "(?raw ! i \<noteq> NaN \<longrightarrow> quantize_orientations ?raw ! i \<in> {Fin (- 1), Fin 0, Fin 1}) \<and>
        (fp_gt (?raw ! i) (Fin 0) \<longrightarrow> quantize_orientations ?raw ! i = Fin 1) \<and>
        (fp_lt (?raw ! i) (Fin 0) \<longrightarrow> quantize_orientations ?raw ! i = Fin (- 1)) \<and>
        (fp_eq (quantize_orientations ?raw ! i) (Fin 0) \<longleftrightarrow> fp_eq (?raw ! i) (Fin 0))"
    if "i < length ?raw" for i
  proof (cases "?raw ! i")
    case (Fin x)
    with that show ?thesis
      by (simp add: quantize_nth fp_gt_def fp_eq_def)
  qed (use that in \<open>simp_all add: quantize_nth fp_gt_def fp_eq_def\<close>)
  with a show ?thesis
    by simp
qed

theorem orientation_quantized_witness:
  "\<exists>m' w. compute_distortion_energies exact_arith edge_gradient corner_tet = Inr (m', w) \<and>
     get_tet_orientations corner_tet = [Fin (1/6)] \<and>
     attributes m' ''orientations'' = Some (FloatArray [Fin 1]) \<and>
     (\<exists>os. attributes m' ''orientations'' = Some (FloatArray os) \<and>
       length os = length (get_tet_orientations corner_tet) \<and>
       (\<forall>i < length os.
        (get_tet_orientations corner_tet ! i \<noteq> NaN \<longrightarrow> os ! i \<in> {Fin (- 1), Fin 0, Fin 1}) \<and>
        (fp_gt (get_tet_orientations corner_tet ! i) (Fin 0) \<longrightarrow> os ! i = Fin 1) \<and>
        (fp_lt (get_tet_orientations corner_tet ! i) (Fin 0) \<longrightarrow> os ! i = Fin (- 1)) \<and>
        (fp_eq (os ! i) (Fin 0) \<longleftrightarrow> fp_eq (get_tet_orientations corner_tet ! i) (Fin 0))))"
proof -
  from corner_tet_run obtain m w where
    r: "compute_distortion_energies exact_arith edge_gradient corner_tet = Inr (m, w)"
    and v: "attributes m ''orientations'' = Some (FloatArray [Fin 1])"
    by blast
  have g: "get_tet_orientations corner_tet = [Fin (1/6)]"
    by (simp add: corner_tet_def one_tet_facts)
  from orientation_quantized[OF r] r v g show ?thesis
    by blast
qed

section \<open>The precondition\<close>

lemma jacobians_Inl:
  assumes "jacobians np G mesh = Inl e"
  shows "e = IndexError \<or> e = ValueError"
proof -
  from assms have "sequence_err (map (vertex_block (vertices mesh)) (voxels mesh)) = Inl e"
    unfolding jacobians_def Let_def
    by (simp only: bind_err_Inl_iff sequence_invert_J bind_err_Inr) auto
  then obtain tet where "vertex_block (vertices mesh) tet = Inl e"
    by (auto dest!: sequence_err_Inl)
  then show ?thesis
    by (auto simp: vertex_block_def split: if_splits list.splits)
qed

lemma cde_Inl:
  assumes "compute_distortion_energies np G mesh = Inl e"
    and "\<not> (0 < num_voxels mesh \<and> vertex_per_voxel mesh \<noteq> 4)"
  shows "e = IndexError \<or> e = ValueError"
  using assms unfolding compute_distortion_energies_def Let_def
  by (auto simp: bind_err_Inl_iff dest: jacobians_Inl np_binary_Inl split: if_splits)

lemma mesh_facts:
  "num_voxels empty_mesh = 0"
  "get_tet_orientations empty_mesh = []"
  "num_voxels hex_mesh = 1"
  "vertex_per_voxel hex_mesh = 8"
  by (simp_all add: empty_mesh_def hex_mesh_def num_voxels_def get_tet_orientations_def
      no_geometry_def)

text \<open>
  Claim C5. The evaluator fails with \<open>UnsupportedElementKind\<close> iff the mesh has at least
  one voxel and its voxels do not have 4 vertices. A mesh without voxels passes the
  guard and the evaluator returns, with empty arrays under the four energy attributes
  and the quantised provider orientations (empty when the provider's array is empty)
  under \<^verbatim>\<open>orientations\<close>.
\<close>

theorem unsupported_element_kind:
  "(compute_distortion_energies np G mesh = Inl UnsupportedElementKind
      \<longleftrightarrow> 0 < num_voxels mesh \<and> vertex_per_voxel mesh \<noteq> 4) \<and>
   (num_voxels mesh = 0 \<longrightarrow>
      (\<exists>m' w. compute_distortion_energies np G mesh = Inr (m', w) \<and>
         attributes m' ''conformal_AMIPS'' = Some (FloatArray []) \<and>
         attributes m' ''finite_conformal_AMIPS'' = Some (BoolArray []) \<and>
         attributes m' ''symmetric_Dirichlet'' = Some (FloatArray []) \<and>
         attributes m' ''finite_symmetric_Dirichlet'' = Some (BoolArray []) \<and>
         attributes m' ''orientations''
           = Some (FloatArray (quantize_orientations (get_tet_orientations mesh))) \<and>
         (get_tet_orientations mesh = [] \<longrightarrow>
            attributes m' ''orientations'' = Some (FloatArray []))))"
proof (intro conjI impI)
  show "compute_distortion_energies np G mesh = Inl UnsupportedElementKind
      \<longleftrightarrow> 0 < num_voxels mesh \<and> vertex_per_voxel mesh \<noteq> 4"
  proof
    assume "compute_distortion_energies np G mesh = Inl UnsupportedElementKind"
    then show "0 < num_voxels mesh \<and> vertex_per_voxel mesh \<noteq> 4"
      using cde_Inl[of np G mesh UnsupportedElementKind] by blast
  next
    assume "0 < num_voxels mesh \<and> vertex_per_voxel mesh \<noteq> 4"
    then show "compute_distortion_energies np G mesh = Inl UnsupportedElementKind"
      by (simp add: compute_distortion_energies_def)
  qed
next
  assume n: "num_voxels mesh = 0"
  then have "voxels_ok mesh" "0 < num_voxels mesh \<longrightarrow> vertex_per_voxel mesh = 4"
    by (simp_all add: voxels_ok_def num_voxels_def)
  from cde_explicit[OF this, of np G] n
  show "\<exists>m' w. compute_distortion_energies np G mesh = Inr (m', w) \<and>
         attributes m' ''conformal_AMIPS'' = Some (FloatArray []) \<and>
         attributes m' ''finite_conformal_AMIPS'' = Some (BoolArray []) \<and>
         attributes m' ''symmetric_Dirichlet'' = Some (FloatArray []) \<and>
         attributes m' ''finite_symmetric_Dirichlet'' = Some (BoolArray []) \<and>
         attributes m' ''orientations''
           = Some (FloatArray (quantize_orientations (get_tet_orientations mesh))) \<and>
         (get_tet_orientations mesh = [] \<longrightarrow>
            attributes m' ''orientations'' = Some (FloatArray []))"
    by (auto simp: quantize_orientations_def set_positive_def set_negative_def)
qed

theorem unsupported_element_kind_witness:
  "compute_distortion_energies exact_arith edge_gradient hex_mesh = Inl UnsupportedElementKind \<and>
   num_voxels empty_mesh = 0 \<and> get_tet_orientations empty_mesh = [] \<and>
   (\<exists>m' w. compute_distortion_energies exact_arith edge_gradient empty_mesh = Inr (m', w) \<and>
         attributes m' ''conformal_AMIPS'' = Some (FloatArray []) \<and>
         attributes m' ''finite_conformal_AMIPS'' = Some (BoolArray []) \<and>
         attributes m' ''symmetric_Dirichlet'' = Some (FloatArray []) \<and>
         attributes m' ''finite_symmetric_Dirichlet'' = Some (BoolArray []) \<and>
         attributes m' ''orientations'' = Some (FloatArray []))"
  using unsupported_element_kind[of exact_arith edge_gradient hex_mesh]
    unsupported_element_kind[of exact_arith edge_gradient empty_mesh]
  by (simp add: mesh_facts) blast

section \<open>The sentinel for a zero determinant\<close>

text \<open>
  On finite entries with a nonzero determinant, the inverse without rounding is the
  inverse.
\<close>

lemma adjugate_inverse_is_inverse:
  fixes a b c d e f g h i :: real
  assumes "J = ((Fin a, Fin b, Fin c), (Fin d, Fin e, Fin f), (Fin g, Fin h, Fin i))"
    and "\<not> fp_eq (cofactor_det J) (Fin 0)"
  shows "dot3 J (adjugate_inverse J) = ((Fin 1, Fin 0, Fin 0), (Fin 0, Fin 1, Fin 0), (Fin 0, Fin 0, Fin 1))"
proof -
  define k where "k = a * (e * i - f * h) - b * (d * i - f * g) + c * (d * h - e * g)"
  have det: "cofactor_det J = Fin k"
    by (simp add: assms(1) minor2_def fsub_def k_def)
  with assms(2) have k0: "k \<noteq> 0"
    by (simp add: fp_eq_def)
  have inv: "adjugate_inverse J =
      ((Fin ((e * i - f * h) / k), Fin ((c * h - b * i) / k), Fin ((b * f - c * e) / k)),
       (Fin ((f * g - d * i) / k), Fin ((a * i - c * g) / k), Fin ((c * d - a * f) / k)),
       (Fin ((d * h - e * g) / k), Fin ((b * g - a * h) / k), Fin ((a * e - b * d) / k)))"
    unfolding adjugate_inverse_def det using k0
    by (simp add: assms(1) minor2_def fsub_def)
  have comb: "p * (x / k) + q * (y / k) + r * (z / k) = (p * x + q * y + r * z) / k"
    for p q r x y z :: real
    by (simp add: add_divide_distrib)
  have diag: "a * ((e * i - f * h) / k) + b * ((f * g - d * i) / k) + c * ((d * h - e * g) / k) = 1"
     "d * ((c * h - b * i) / k) + e * ((a * i - c * g) / k) + f * ((b * g - a * h) / k) = 1"
     "g * ((b * f - c * e) / k) + h * ((c * d - a * f) / k) + i * ((a * e - b * d) / k) = 1"
  proof -
    have "a * (e * i - f * h) + b * (f * g - d * i) + c * (d * h - e * g) = k"
      "d * (c * h - b * i) + e * (a * i - c * g) + f * (b * g - a * h) = k"
      "g * (b * f - c * e) + h * (c * d - a * f) + i * (a * e - b * d) = k"
      by (simp_all add: k_def algebra_simps)
    with k0 show
      "a * ((e * i - f * h) / k) + b * ((f * g - d * i) / k) + c * ((d * h - e * g) / k) = 1"
      "d * ((c * h - b * i) / k) + e * ((a * i - c * g) / k) + f * ((b * g - a * h) / k) = 1"
      "g * ((b * f - c * e) / k) + h * ((c * d - a * f) / k) + i * ((a * e - b * d) / k) = 1"
      by (simp_all only: comb) simp_all
  qed
  have off: "a * ((c * h - b * i) / k) + b * ((a * i - c * g) / k) + c * ((b * g - a * h) / k) = 0"
     "a * ((b * f - c * e) / k) + b * ((c * d - a * f) / k) + c * ((a * e - b * d) / k) = 0"
     "d * ((e * i - f * h) / k) + e * ((f * g - d * i) / k) + f * ((d * h - e * g) / k) = 0"
     "d * ((b * f - c * e) / k) + e * ((c * d - a * f) / k) + f * ((a * e - b * d) / k) = 0"
     "g * ((e * i - f * h) / k) + h * ((f * g - d * i) / k) + i * ((d * h - e * g) / k) = 0"
     "g * ((c * h - b * i) / k) + h * ((a * i - c * g) / k) + i * ((b * g - a * h) / k) = 0"
  proof -
    have "a * (c * h - b * i) + b * (a * i - c * g) + c * (b * g - a * h) = 0"
      "a * (b * f - c * e) + b * (c * d - a * f) + c * (a * e - b * d) = 0"
      "d * (e * i - f * h) + e * (f * g - d * i) + f * (d * h - e * g) = 0"
      "d * (b * f - c * e) + e * (c * d - a * f) + f * (a * e - b * d) = 0"
      "g * (e * i - f * h) + h * (f * g - d * i) + i * (d * h - e * g) = 0"
      "g * (c * h - b * i) + h * (a * i - c * g) + i * (b * g - a * h) = 0"
      by (simp_all add: algebra_simps)
    then show
     "a * ((c * h - b * i) / k) + b * ((a * i - c * g) / k) + c * ((b * g - a * h) / k) = 0"
     "a * ((b * f - c * e) / k) + b * ((c * d - a * f) / k) + c * ((a * e - b * d) / k) = 0"
     "d * ((e * i - f * h) / k) + e * ((f * g - d * i) / k) + f * ((d * h - e * g) / k) = 0"
     "d * ((b * f - c * e) / k) + e * ((c * d - a * f) / k) + f * ((a * e - b * d) / k) = 0"
     "g * ((e * i - f * h) / k) + h * ((f * g - d * i) / k) + i * ((d * h - e * g) / k) = 0"
     "g * ((c * h - b * i) / k) + h * ((a * i - c * g) / k) + i * ((b * g - a * h) / k) = 0"
      by (simp_all only: comb div_0)
  qed
  show ?thesis
    unfolding inv unfolding assms(1) dot3_def dot_vec3_def
    using diag off by simp
qed

lemma overflow_gives_sentinel:
  assumes "f64_lu np J = Some (d, full3 PInf)" and "\<not> fp_eq d (Fin 0)"
  shows "invert_J np (J, linalg_det np J) = Inr (full3 PInf)"
    and "\<not> fp_eq (linalg_det np J) (Fin 0)"
    and "linalg_inv np J = Inr (full3 PInf)"
  using assms by (simp_all add: invert_J_def linalg_det_def linalg_inv_def)

lemma sliver_gradient:
  "edge_gradient (pt 0 0 0, pt (1/1024) 0 0, pt 0 1 0, pt 0 0 1)
     = ((Fin (1/1024), Fin 0, Fin 0), (Fin 0, Fin 1, Fin 0), (Fin 0, Fin 0, Fin 1))"
  by (simp add: edge_gradient_def vsub3_def pt_def fsub_def)

lemma sliver_determinant:
  "cofactor_det ((Fin (1/1024), Fin 0, Fin 0), (Fin 0, Fin 1, Fin 0), (Fin 0, Fin 0, Fin 1))
     = Fin (1/1024)"
  by (simp add: minor2_def fsub_def)

lemma sliver_inverse:
  "adjugate_inverse ((Fin (1/1024), Fin 0, Fin 0), (Fin 0, Fin 1, Fin 0), (Fin 0, Fin 0, Fin 1))
     = ((Fin 1024, Fin 0, Fin 0), (Fin 0, Fin 1, Fin 0), (Fin 0, Fin 0, Fin 1))"
  unfolding adjugate_inverse_def sliver_determinant
  by (simp add: minor2_def fsub_def)

lemma thin_gradient: "edge_gradient (tet_block thin_tet 0) = thin_J"
  by (simp add: thin_tet_def thin_points_def one_tet_facts edge_gradient_def vsub3_def
      pt_def fsub_def thin_J_def)

text \<open>The determinant of \<open>thin_J\<close> without rounding is the last pivot.\<close>

lemma thin_determinant: "cofactor_det thin_J = Fin eps_u"
  by (simp add: thin_J_def minor2_def fsub_def algebra_simps)

lemma eps_u_not_zero: "\<not> fp_eq (Fin eps_u) (Fin 0)"
  by (simp add: fp_eq_def eps_u_def)

lemma overflowing_thin: "f64_lu overflowing thin_J = Some (Fin eps_u, full3 PInf)"
  by (simp add: overflowing_def overflowing_lu_def)

lemma thin_tet_jacobians:
  "\<exists>J_F J_inv_F. jacobians overflowing edge_gradient thin_tet
      = Inr ([thin_J], J_F, [Fin eps_u], [full3 PInf], J_inv_F)"
proof -
  have "voxels_ok thin_tet" "0 < num_voxels thin_tet \<longrightarrow> vertex_per_voxel thin_tet = 4"
    by (simp_all add: thin_tet_def thin_points_def one_tet_facts)
  from jacobians_total[OF this, of overflowing edge_gradient] obtain Js where
    j: "jacobians overflowing edge_gradient thin_tet =
          Inr (Js, map (frobenius overflowing) Js, map (linalg_det overflowing) Js,
               map (spec_J_inv overflowing) Js,
               map (frobenius overflowing) (map (spec_J_inv overflowing) Js))"
    by (elim exE)
  from jacobians_result(2)[OF j] have Js: "Js = [thin_J]"
    by (simp add: thin_tet_def one_tet_facts(2) thin_gradient[unfolded thin_tet_def])
  have d: "linalg_det overflowing thin_J = Fin eps_u"
    by (simp add: linalg_det_def overflowing_thin)
  have i: "spec_J_inv overflowing thin_J = full3 PInf"
    by (simp add: spec_J_inv_def linalg_inv_def overflowing_thin)
  from j show ?thesis
    unfolding Js by (simp add: d i)
qed

text \<open>
  Claim C3, as stated, fails in the direction from the matrix of infinities to the zero
  determinant. For the deformation gradient \<open>thin_J\<close> the determinant that
  \<^verbatim>\<open>numpy.linalg.det\<close> returns is \<open>1 / 2 ^ 1052\<close>, which does not compare equal to zero, so
  line 40 calls \<^verbatim>\<open>numpy.linalg.inv\<close>; the inverse it returns has overflowed in every
  entry, so \<^verbatim>\<open>J_inv\<close> is the matrix of nine plus infinities although the determinant is
  not zero.
\<close>

theorem overflowed_inverse_counterexample:
  "(case jacobians overflowing edge_gradient thin_tet of
      Inl e \<Rightarrow> False
    | Inr (Js, J_F, J_det, J_inv, J_inv_F) \<Rightarrow>
        Js = [thin_J] \<and> J_det = [Fin eps_u] \<and> J_inv = [full3 PInf]) \<and>
   \<not> fp_eq (Fin eps_u) (Fin 0) \<and>
   linalg_det overflowing thin_J = Fin eps_u \<and>
   linalg_inv overflowing thin_J = Inr (full3 PInf)"
proof -
  from thin_tet_jacobians obtain J_F J_inv_F where
    "jacobians overflowing edge_gradient thin_tet
       = Inr ([thin_J], J_F, [Fin eps_u], [full3 PInf], J_inv_F)"
    by (elim exE)
  then show ?thesis
    using overflow_gives_sentinel(3)[OF overflowing_thin eps_u_not_zero] eps_u_not_zero
    by (simp add: linalg_det_def overflowing_thin)
qed

text \<open>
  Claim C3, amended. For every tetrahedron \<open>t\<close>, \<^verbatim>\<open>J_det[t]\<close> is what \<^verbatim>\<open>numpy.linalg.det\<close>
  returns for \<^verbatim>\<open>Js[t]\<close>. When it compares equal to zero, \<^verbatim>\<open>J_inv[t]\<close> is the matrix with all
  nine entries plus infinity. For any other determinant, however small, and for a NaN
  determinant, \<^verbatim>\<open>numpy.linalg.inv\<close> is called on \<^verbatim>\<open>Js[t]\<close>, it raises nothing, and
  \<^verbatim>\<open>J_inv[t]\<close> is the matrix it returns. So \<^verbatim>\<open>J_inv[t]\<close> is the matrix of infinities iff the
  determinant compares equal to zero or the inversion itself returns that matrix.
\<close>

theorem sentinel_or_numpy_inverse:
  assumes "jacobians np G mesh = Inr (Js, J_F, J_det, J_inv, J_inv_F)"
  shows "length Js = num_voxels mesh \<and> length J_det = num_voxels mesh \<and>
     length J_inv = num_voxels mesh \<and>
     (\<forall>t < num_voxels mesh.
        Js ! t = G (tet_block mesh t) \<and>
        J_det ! t = linalg_det np (Js ! t) \<and>
        (fp_eq (J_det ! t) (Fin 0) \<longrightarrow> J_inv ! t = full3 PInf) \<and>
        (\<not> fp_eq (J_det ! t) (Fin 0) \<longrightarrow> linalg_inv np (Js ! t) = Inr (J_inv ! t)) \<and>
        (J_inv ! t = full3 PInf \<longleftrightarrow>
           fp_eq (J_det ! t) (Fin 0) \<or> linalg_inv np (Js ! t) = Inr (full3 PInf)))"
proof -
  note r = jacobians_result[OF assms]
  have len: "length Js = num_voxels mesh"
    by (simp add: r(2))
  have "Js ! t = G (tet_block mesh t) \<and>
        J_det ! t = linalg_det np (Js ! t) \<and>
        (fp_eq (J_det ! t) (Fin 0) \<longrightarrow> J_inv ! t = full3 PInf) \<and>
        (\<not> fp_eq (J_det ! t) (Fin 0) \<longrightarrow> linalg_inv np (Js ! t) = Inr (J_inv ! t)) \<and>
        (J_inv ! t = full3 PInf \<longleftrightarrow>
           fp_eq (J_det ! t) (Fin 0) \<or> linalg_inv np (Js ! t) = Inr (full3 PInf))"
    if "t < num_voxels mesh" for t
  proof -
    from that have 1: "Js ! t = G (tet_block mesh t)"
      by (simp add: r(2))
    from that len have 2: "J_det ! t = linalg_det np (Js ! t)"
      by (simp add: r(4))
    from that len have 3: "J_inv ! t = spec_J_inv np (Js ! t)"
      by (simp add: r(5))
    define D where "D = linalg_det np (Js ! t)"
    define X where "X = spec_J_inv np (Js ! t)"
    define I where "I = linalg_inv np (Js ! t)"
    have 4: "fp_eq D (Fin 0) \<longrightarrow> X = full3 PInf"
      by (simp add: D_def X_def spec_J_inv_def)
    have 5: "\<not> fp_eq D (Fin 0) \<longrightarrow> I = Inr X"
      unfolding D_def X_def I_def
      by (cases "f64_lu np (Js ! t)")
         (auto simp: spec_J_inv_def linalg_inv_def linalg_det_def fp_eq_def)
    from 4 5 have 6: "X = full3 PInf \<longleftrightarrow> fp_eq D (Fin 0) \<or> I = Inr (full3 PInf)"
      by auto
    note facts = 1 4[unfolded D_def X_def] 5[unfolded D_def X_def I_def]
      6[unfolded D_def X_def I_def]
    show ?thesis
      unfolding 3 2 using facts by blast
  qed
  moreover have "length J_det = num_voxels mesh" "length J_inv = num_voxels mesh"
    by (simp_all add: r(4,5) len)
  ultimately show ?thesis
    using len by blast
qed

theorem sentinel_or_numpy_inverse_witness:
  "\<exists>Js J_F J_det J_inv J_inv_F.
     jacobians exact_arith edge_gradient sliver_tet = Inr (Js, J_F, J_det, J_inv, J_inv_F) \<and>
     num_voxels sliver_tet = 1 \<and>
     J_det ! 0 = Fin (1/1024) \<and> \<not> fp_eq (J_det ! 0) (Fin 0) \<and>
     linalg_inv exact_arith (Js ! 0) = Inr (J_inv ! 0) \<and>
     J_inv ! 0 = ((Fin 1024, Fin 0, Fin 0), (Fin 0, Fin 1, Fin 0), (Fin 0, Fin 0, Fin 1)) \<and>
     J_inv ! 0 \<noteq> full3 PInf"
proof -
  have "voxels_ok sliver_tet" "0 < num_voxels sliver_tet \<longrightarrow> vertex_per_voxel sliver_tet = 4"
    by (simp_all add: sliver_tet_def sliver_points_def one_tet_facts)
  from jacobians_total[OF this, of exact_arith edge_gradient]
  obtain Js J_F J_det J_inv J_inv_F where
    j: "jacobians exact_arith edge_gradient sliver_tet = Inr (Js, J_F, J_det, J_inv, J_inv_F)"
    by (elim exE)
  have n: "num_voxels sliver_tet = 1"
    by (simp add: sliver_tet_def one_tet_facts)
  then have "0 < num_voxels sliver_tet"
    by simp
  with sentinel_or_numpy_inverse[OF j] have
    s: "Js ! 0 = edge_gradient (tet_block sliver_tet 0)"
      "J_det ! 0 = linalg_det exact_arith (Js ! 0)"
      "\<not> fp_eq (J_det ! 0) (Fin 0) \<longrightarrow> linalg_inv exact_arith (Js ! 0) = Inr (J_inv ! 0)"
    by blast+
  have J: "Js ! 0 = ((Fin (1/1024), Fin 0, Fin 0), (Fin 0, Fin 1, Fin 0), (Fin 0, Fin 0, Fin 1))"
    unfolding s(1) by (simp add: sliver_tet_def sliver_points_def one_tet_facts sliver_gradient)
  have d: "J_det ! 0 = Fin (1/1024)"
    unfolding s(2) J linalg_det_exact by (rule sliver_determinant)
  then have nz: "\<not> fp_eq (J_det ! 0) (Fin 0)"
    by (simp add: fp_eq_def)
  with s(3) have inv: "linalg_inv exact_arith (Js ! 0) = Inr (J_inv ! 0)"
    by simp
  have "exact_lu ((Fin (1/1024), Fin 0, Fin 0), (Fin 0, Fin 1, Fin 0), (Fin 0, Fin 0, Fin 1))
          = Some (Fin (1/1024),
                  ((Fin 1024, Fin 0, Fin 0), (Fin 0, Fin 1, Fin 0), (Fin 0, Fin 0, Fin 1)))"
    unfolding exact_lu_def sliver_determinant sliver_inverse
    by (simp add: fp_eq_def)
  then have "linalg_inv exact_arith (Js ! 0)
          = Inr ((Fin 1024, Fin 0, Fin 0), (Fin 0, Fin 1, Fin 0), (Fin 0, Fin 0, Fin 1))"
    unfolding J by (simp add: linalg_inv_def)
  with inv have i: "J_inv ! 0 = ((Fin 1024, Fin 0, Fin 0), (Fin 0, Fin 1, Fin 0), (Fin 0, Fin 0, Fin 1))"
    by simp
  then have ns: "J_inv ! 0 \<noteq> full3 PInf"
    by (simp add: full3_def)
  show ?thesis
    apply (rule exI[of _ Js])
    apply (rule exI[of _ J_F])
    apply (rule exI[of _ J_det])
    apply (rule exI[of _ J_inv])
    apply (rule exI[of _ J_inv_F])
    using j n d nz inv i ns by simp
qed

section \<open>The two energies\<close>

lemma not_negative_square: "not_negative (fmul a a)"
  by (cases a) simp_all

lemma not_negative_fadd: "not_negative a \<Longrightarrow> not_negative b \<Longrightarrow> not_negative (fadd a b)"
  by (cases a; cases b) simp_all

lemma not_negative_frobenius: "not_negative (trace3 (dot3 (transpose3 J) J))"
proof -
  obtain a b c d e f g h i where J: "J = ((a, b, c), (d, e, f), (g, h, i))"
    by (metis prod_cases3)
  show ?thesis
    unfolding J dot3_def dot_vec3_def
    by (simp add: not_negative_square not_negative_fadd)
qed

lemma frobenius_sentinel: "trace3 (dot3 (transpose3 (full3 PInf)) (full3 PInf)) = PInf"
  by (simp add: full3_def dot3_def dot_vec3_def)

lemma special_values_exact: "special_values exact_arith"
  unfolding special_values_def exact_arith_simps frobenius_sentinel
  using not_negative_frobenius by (simp add: fsquare_def)

lemma special_values_D:
  assumes "special_values np"
  shows "f64_divide np a (f64_cbrt np (f64_square np (Fin 0))) = fdiv a (Fin 0)"
    and "f64_add np a (f64_trace np (f64_dot np (transpose3 (full3 PInf)) (full3 PInf)))
           = fadd a PInf"
    and "not_negative (frobenius np J)"
  using assms unfolding special_values_def frobenius_def by blast+

lemma amips_of_singular:
  assumes "special_values np" and "fp_eq (linalg_det np J) (Fin 0)"
  shows "amips_of np J \<in> {PInf, NaN}"
proof -
  from assms(2) have d: "linalg_det np J = Fin 0"
    by (simp add: fp_eq_def)
  have "not_negative (frobenius np J)"
    by (rule special_values_D(3)[OF assms(1)])
  moreover have "amips_of np J = fdiv (frobenius np J) (Fin 0)"
    unfolding amips_of_def d by (rule special_values_D(1)[OF assms(1)])
  ultimately show ?thesis
    by (cases "frobenius np J") (simp_all add: inf_of_sign_def)
qed

lemma dirichlet_of_singular:
  assumes "special_values np" and "fp_eq (linalg_det np J) (Fin 0)"
  shows "dirichlet_of np J \<in> {PInf, NaN}"
proof -
  from assms(2) have s: "spec_J_inv np J = full3 PInf"
    by (simp add: spec_J_inv_def)
  have "not_negative (frobenius np J)"
    by (rule special_values_D(3)[OF assms(1)])
  moreover have "dirichlet_of np J = fadd (frobenius np J) PInf"
    unfolding dirichlet_of_def s
    unfolding frobenius_def[of np "full3 PInf"]
    by (rule special_values_D(2)[OF assms(1)])
  ultimately show ?thesis
    by (cases "frobenius np J") simp_all
qed

lemma amips_of_spec: "amips_of np (G V) = spec_conformal_AMIPS np G V"
  by (simp add: amips_of_def spec_conformal_AMIPS_def frobenius_def Let_def)

lemma dirichlet_of_spec: "dirichlet_of np (G V) = spec_symmetric_Dirichlet np G V"
  by (simp add: dirichlet_of_def spec_symmetric_Dirichlet_def frobenius_def Let_def)

text \<open>
  Claim C4. On a mesh of tetrahedra whose indices are in range the evaluator raises
  nothing, whatever values the arithmetic of numpy returns, and for every tetrahedron
  \<open>t\<close> the stored \<^verbatim>\<open>conformal_AMIPS[t]\<close> and \<^verbatim>\<open>symmetric_Dirichlet[t]\<close> are the values that
  the per-tetrahedron algorithm of the specification gives for the vertex block of
  \<open>t\<close>: with \<open>J = G V_t\<close> and \<open>J_F = trace (J\<^sup>T J)\<close>, the quotient of \<open>J_F\<close> by the cube
  root of the squared determinant, and the sum of \<open>J_F\<close> and \<open>J_inv_F\<close>, each operation
  being that of numpy. When the determinant that numpy returns is zero, the division
  and the sum are not trapped: under the IEEE rules for zero and infinity both stored
  values are plus infinity or NaN.
\<close>

theorem energies_follow_formulas:
  assumes "voxels_ok mesh" and "0 < num_voxels mesh \<longrightarrow> vertex_per_voxel mesh = 4"
  shows "\<exists>m' w amips dir.
     compute_distortion_energies np G mesh = Inr (m', w) \<and>
     attributes m' ''conformal_AMIPS'' = Some (FloatArray amips) \<and>
     attributes m' ''symmetric_Dirichlet'' = Some (FloatArray dir) \<and>
     length amips = num_voxels mesh \<and> length dir = num_voxels mesh \<and>
     (\<forall>t < num_voxels mesh.
        amips ! t = spec_conformal_AMIPS np G (tet_block mesh t) \<and>
        dir ! t = spec_symmetric_Dirichlet np G (tet_block mesh t) \<and>
        (special_values np \<and> fp_eq (linalg_det np (G (tet_block mesh t))) (Fin 0) \<longrightarrow>
           amips ! t \<in> {PInf, NaN} \<and> dir ! t \<in> {PInf, NaN}))"
proof -
  let ?Js = "map (\<lambda>t. G (tet_block mesh t)) [0 ..< num_voxels mesh]"
  from cde_explicit[OF assms, of np G] obtain m' w where
    r: "compute_distortion_energies np G mesh = Inr (m', w)"
    and a: "attributes m' = (attributes mesh)
        (''conformal_AMIPS'' \<mapsto> FloatArray (map (amips_of np) ?Js),
         ''finite_conformal_AMIPS'' \<mapsto> BoolArray (map isfinite (map (amips_of np) ?Js)),
         ''symmetric_Dirichlet'' \<mapsto> FloatArray (map (dirichlet_of np) ?Js),
         ''finite_symmetric_Dirichlet'' \<mapsto> BoolArray (map isfinite (map (dirichlet_of np) ?Js)),
         ''orientations'' \<mapsto> FloatArray (quantize_orientations (get_tet_orientations mesh)))"
    by blast
  have el: "map (amips_of np) ?Js ! t = spec_conformal_AMIPS np G (tet_block mesh t) \<and>
        map (dirichlet_of np) ?Js ! t = spec_symmetric_Dirichlet np G (tet_block mesh t) \<and>
        (special_values np \<and> fp_eq (linalg_det np (G (tet_block mesh t))) (Fin 0) \<longrightarrow>
           map (amips_of np) ?Js ! t \<in> {PInf, NaN} \<and> map (dirichlet_of np) ?Js ! t \<in> {PInf, NaN})"
    if "t < num_voxels mesh" for t
    using that amips_of_singular[of np "G (tet_block mesh t)"]
      dirichlet_of_singular[of np "G (tet_block mesh t)"]
    by (simp add: amips_of_spec dirichlet_of_spec)
  show ?thesis
    apply (rule exI[of _ m'])
    apply (rule exI[of _ w])
    apply (rule exI[of _ "map (amips_of np) ?Js"])
    apply (rule exI[of _ "map (dirichlet_of np) ?Js"])
    using r el by (simp add: a) metis
qed

theorem energies_follow_formulas_witness:
  "voxels_ok flat_tet \<and> 0 < num_voxels flat_tet \<and> vertex_per_voxel flat_tet = 4 \<and>
   special_values exact_arith \<and>
   fp_eq (linalg_det exact_arith (edge_gradient (tet_block flat_tet 0))) (Fin 0) \<and>
   (\<exists>m' w amips dir.
     compute_distortion_energies exact_arith edge_gradient flat_tet = Inr (m', w) \<and>
     attributes m' ''conformal_AMIPS'' = Some (FloatArray amips) \<and>
     attributes m' ''symmetric_Dirichlet'' = Some (FloatArray dir) \<and>
     length amips = num_voxels flat_tet \<and> length dir = num_voxels flat_tet \<and>
     (\<forall>t < num_voxels flat_tet.
        amips ! t = spec_conformal_AMIPS exact_arith edge_gradient (tet_block flat_tet t) \<and>
        dir ! t = spec_symmetric_Dirichlet exact_arith edge_gradient (tet_block flat_tet t) \<and>
        (special_values exact_arith \<and>
         fp_eq (linalg_det exact_arith (edge_gradient (tet_block flat_tet t))) (Fin 0) \<longrightarrow>
           amips ! t \<in> {PInf, NaN} \<and> dir ! t \<in> {PInf, NaN})))"
proof -
  have h: "voxels_ok flat_tet" "0 < num_voxels flat_tet \<longrightarrow> vertex_per_voxel flat_tet = 4"
    by (simp_all add: flat_tet_def flat_points_def one_tet_facts)
  have d: "fp_eq (linalg_det exact_arith (edge_gradient (tet_block flat_tet 0))) (Fin 0)"
    by (simp add: flat_tet_def flat_points_def one_tet_facts flat_gradient linalg_det_exact
        minor2_def fsub_def fp_eq_def)
  have v: "0 < num_voxels flat_tet" "vertex_per_voxel flat_tet = 4"
    by (simp_all add: flat_tet_def one_tet_facts)
  from energies_follow_formulas[OF h, of exact_arith edge_gradient] h(1) v d
    special_values_exact
  show ?thesis
    by simp
qed

section \<open>Diagnostics\<close>

lemma warn_if_positive_mem:
  "(msg, n) \<in> set (warn_if_positive msg' k) \<longleftrightarrow> msg = msg' \<and> n = k \<and> 0 < k"
  by (auto simp: warn_if_positive_def)

lemma warnings_mem:
  fixes a b c d :: nat
  defines "w \<equiv> warn_if_positive ''degenerate tets: '' a
         @ warn_if_positive ''inverted tets: '' b
         @ warn_if_positive ''Non-finite conformal AMIPS: '' c
         @ warn_if_positive ''Non-finite symmetric Dirichlet: '' d"
  shows "(''degenerate tets: '', n) \<in> set w \<longleftrightarrow> 0 < n \<and> n = a"
    and "(''inverted tets: '', n) \<in> set w \<longleftrightarrow> 0 < n \<and> n = b"
    and "(''Non-finite conformal AMIPS: '', n) \<in> set w \<longleftrightarrow> 0 < n \<and> n = c"
    and "(''Non-finite symmetric Dirichlet: '', n) \<in> set w \<longleftrightarrow> 0 < n \<and> n = d"
  unfolding w_def by (auto simp: warn_if_positive_mem)

text \<open>
  Claim C9. On a mesh of tetrahedra whose indices are in range the evaluator returns and
  writes its five attributes whatever the four counts are. The warnings logged are, in
  this order, one for the tetrahedra whose orientation is zero, one for those whose
  orientation is negative, one for the non-finite AMIPS values and one for the
  non-finite Dirichlet values, each present iff its count is positive, and each with
  its count. On a mesh without tetrahedra, for which the provider has no orientation,
  nothing is logged.
\<close>

theorem warnings_iff_positive_counts:
  assumes "voxels_ok mesh" and "0 < num_voxels mesh \<longrightarrow> vertex_per_voxel mesh = 4"
  shows "\<exists>m' w os amips dir.
     compute_distortion_energies np G mesh = Inr (m', w) \<and>
     attributes m' ''orientations'' = Some (FloatArray os) \<and>
     attributes m' ''conformal_AMIPS'' = Some (FloatArray amips) \<and>
     attributes m' ''finite_conformal_AMIPS'' = Some (BoolArray (map isfinite amips)) \<and>
     attributes m' ''symmetric_Dirichlet'' = Some (FloatArray dir) \<and>
     attributes m' ''finite_symmetric_Dirichlet'' = Some (BoolArray (map isfinite dir)) \<and>
     w = warn_if_positive ''degenerate tets: '' (length (filter (\<lambda>x. fp_eq x (Fin 0)) os))
         @ warn_if_positive ''inverted tets: '' (length (filter (\<lambda>x. fp_lt x (Fin 0)) os))
         @ warn_if_positive ''Non-finite conformal AMIPS: ''
             (length (filter (\<lambda>x. \<not> isfinite x) amips))
         @ warn_if_positive ''Non-finite symmetric Dirichlet: ''
             (length (filter (\<lambda>x. \<not> isfinite x) dir)) \<and>
     (\<forall>n. (''degenerate tets: '', n) \<in> set w
          \<longleftrightarrow> 0 < n \<and> n = length (filter (\<lambda>x. fp_eq x (Fin 0)) os)) \<and>
     (\<forall>n. (''inverted tets: '', n) \<in> set w
          \<longleftrightarrow> 0 < n \<and> n = length (filter (\<lambda>x. fp_lt x (Fin 0)) os)) \<and>
     (\<forall>n. (''Non-finite conformal AMIPS: '', n) \<in> set w
          \<longleftrightarrow> 0 < n \<and> n = length (filter (\<lambda>x. \<not> isfinite x) amips)) \<and>
     (\<forall>n. (''Non-finite symmetric Dirichlet: '', n) \<in> set w
          \<longleftrightarrow> 0 < n \<and> n = length (filter (\<lambda>x. \<not> isfinite x) dir)) \<and>
     (num_voxels mesh = 0 \<and> get_tet_orientations mesh = [] \<longrightarrow> w = [])"
proof -
  let ?Js = "map (\<lambda>t. G (tet_block mesh t)) [0 ..< num_voxels mesh]"
  let ?os = "quantize_orientations (get_tet_orientations mesh)"
  let ?w = "warn_if_positive ''degenerate tets: '' (length (filter (\<lambda>x. fp_eq x (Fin 0)) ?os))
         @ warn_if_positive ''inverted tets: '' (length (filter (\<lambda>x. fp_lt x (Fin 0)) ?os))
         @ warn_if_positive ''Non-finite conformal AMIPS: ''
             (length (filter (\<lambda>x. \<not> isfinite x) (map (amips_of np) ?Js)))
         @ warn_if_positive ''Non-finite symmetric Dirichlet: ''
             (length (filter (\<lambda>x. \<not> isfinite x) (map (dirichlet_of np) ?Js)))"
  from cde_explicit[OF assms, of np G] obtain m' w Js where
    r0: "compute_distortion_energies np G mesh = Inr (m', w)"
    and Js: "Js = map (\<lambda>t. G (tet_block mesh t)) [0 ..< num_voxels mesh]"
    and a0: "attributes m' = (attributes mesh)
        (''conformal_AMIPS'' \<mapsto> FloatArray (map (amips_of np) Js),
         ''finite_conformal_AMIPS'' \<mapsto> BoolArray (map isfinite (map (amips_of np) Js)),
         ''symmetric_Dirichlet'' \<mapsto> FloatArray (map (dirichlet_of np) Js),
         ''finite_symmetric_Dirichlet'' \<mapsto> BoolArray (map isfinite (map (dirichlet_of np) Js)),
         ''orientations'' \<mapsto> FloatArray (quantize_orientations (get_tet_orientations mesh)))"
    and w0: "w = warn_if_positive ''degenerate tets: ''
           (length (filter (\<lambda>x. fp_eq x (Fin 0)) (quantize_orientations (get_tet_orientations mesh))))
         @ warn_if_positive ''inverted tets: ''
           (length (filter (\<lambda>x. fp_lt x (Fin 0)) (quantize_orientations (get_tet_orientations mesh))))
         @ warn_if_positive ''Non-finite conformal AMIPS: ''
           (length (filter (\<lambda>x. \<not> isfinite x) (map (amips_of np) Js)))
         @ warn_if_positive ''Non-finite symmetric Dirichlet: ''
           (length (filter (\<lambda>x. \<not> isfinite x) (map (dirichlet_of np) Js)))"
    by blast
  have r: "compute_distortion_energies np G mesh = Inr (m', ?w)"
    using r0 unfolding w0 Js .
  have a: "attributes m' = (attributes mesh)
        (''conformal_AMIPS'' \<mapsto> FloatArray (map (amips_of np) ?Js),
         ''finite_conformal_AMIPS'' \<mapsto> BoolArray (map isfinite (map (amips_of np) ?Js)),
         ''symmetric_Dirichlet'' \<mapsto> FloatArray (map (dirichlet_of np) ?Js),
         ''finite_symmetric_Dirichlet'' \<mapsto> BoolArray (map isfinite (map (dirichlet_of np) ?Js)),
         ''orientations'' \<mapsto> FloatArray ?os)"
    using a0 unfolding Js .
  have stored: "attributes m' ''orientations'' = Some (FloatArray ?os)"
    "attributes m' ''conformal_AMIPS'' = Some (FloatArray (map (amips_of np) ?Js))"
    "attributes m' ''finite_conformal_AMIPS''
       = Some (BoolArray (map isfinite (map (amips_of np) ?Js)))"
    "attributes m' ''symmetric_Dirichlet'' = Some (FloatArray (map (dirichlet_of np) ?Js))"
    "attributes m' ''finite_symmetric_Dirichlet''
       = Some (BoolArray (map isfinite (map (dirichlet_of np) ?Js)))"
    by (simp_all add: a)
  have mem: "(''degenerate tets: '', n) \<in> set ?w
          \<longleftrightarrow> 0 < n \<and> n = length (filter (\<lambda>x. fp_eq x (Fin 0)) ?os)"
    "(''inverted tets: '', n) \<in> set ?w
          \<longleftrightarrow> 0 < n \<and> n = length (filter (\<lambda>x. fp_lt x (Fin 0)) ?os)"
    "(''Non-finite conformal AMIPS: '', n) \<in> set ?w
          \<longleftrightarrow> 0 < n \<and> n = length (filter (\<lambda>x. \<not> isfinite x) (map (amips_of np) ?Js))"
    "(''Non-finite symmetric Dirichlet: '', n) \<in> set ?w
          \<longleftrightarrow> 0 < n \<and> n = length (filter (\<lambda>x. \<not> isfinite x) (map (dirichlet_of np) ?Js))"
    for n
    by (rule warnings_mem)+
  have empty: "num_voxels mesh = 0 \<and> get_tet_orientations mesh = [] \<longrightarrow> ?w = []"
    by (simp add: warn_if_positive_def quantize_orientations_def set_positive_def
        set_negative_def)
  show ?thesis
    apply (rule exI[of _ m'])
    apply (rule exI[of _ ?w])
    apply (rule exI[of _ ?os])
    apply (rule exI[of _ "map (amips_of np) ?Js"])
    apply (rule exI[of _ "map (dirichlet_of np) ?Js"])
    apply (intro conjI allI)
    apply (rule r)
    apply (rule stored(1))
    apply (rule stored(2))
    apply (rule stored(3))
    apply (rule stored(4))
    apply (rule stored(5))
    apply (rule refl)
    apply (rule mem(1))
    apply (rule mem(2))
    apply (rule mem(3))
    apply (rule mem(4))
    apply (rule empty)
    done
qed

theorem warnings_iff_positive_counts_witness:
  "voxels_ok flat_tet \<and> 0 < num_voxels flat_tet \<and> vertex_per_voxel flat_tet = 4 \<and>
   (\<exists>m' w. compute_distortion_energies exact_arith edge_gradient flat_tet = Inr (m', w) \<and>
      w = [(''degenerate tets: '', 1), (''Non-finite conformal AMIPS: '', 1),
           (''Non-finite symmetric Dirichlet: '', 1)] \<and>
      (''degenerate tets: '', 1) \<in> set w \<and>
      (\<forall>n. (''inverted tets: '', n) \<notin> set w))"
proof -
  have h: "voxels_ok flat_tet" "0 < num_voxels flat_tet \<longrightarrow> vertex_per_voxel flat_tet = 4"
    by (simp_all add: flat_tet_def flat_points_def one_tet_facts)
  from warnings_iff_positive_counts[OF h, of exact_arith edge_gradient] obtain m' w os amips dir where
    r: "compute_distortion_energies exact_arith edge_gradient flat_tet = Inr (m', w)"
    and o: "attributes m' ''orientations'' = Some (FloatArray os)"
    and d: "\<forall>n. (''degenerate tets: '', n) \<in> set w
          \<longleftrightarrow> 0 < n \<and> n = length (filter (\<lambda>x. fp_eq x (Fin 0)) os)"
    and i: "\<forall>n. (''inverted tets: '', n) \<in> set w
          \<longleftrightarrow> 0 < n \<and> n = length (filter (\<lambda>x. fp_lt x (Fin 0)) os)"
    by (elim exE conjE) (rule that, assumption+)
  from flat_tet_run r o have w: "w = [(''degenerate tets: '', 1),
      (''Non-finite conformal AMIPS: '', 1), (''Non-finite symmetric Dirichlet: '', 1)]"
    and os: "os = [Fin 0]"
    by auto
  from d i have m: "(''degenerate tets: '', 1) \<in> set w" "\<forall>n. (''inverted tets: '', n) \<notin> set w"
    unfolding os by (auto simp: fp_eq_def)
  have v: "0 < num_voxels flat_tet" "vertex_per_voxel flat_tet = 4"
    by (simp_all add: flat_tet_def one_tet_facts)
  show ?thesis
    apply (intro conjI)
       apply (rule h(1))
      apply (rule v(1))
     apply (rule v(2))
    apply (rule exI[of _ m'])
    apply (rule exI[of _ w])
    apply (intro conjI)
       apply (rule r)
      apply (rule w)
     apply (rule m(1))
    apply (rule m(2))
    done
qed

section \<open>Shape quality\<close>




























section \<open>The table\<close>

lemma write_rows_ok:
  assumes "\<And>i. i \<in> set is \<Longrightarrow> mk i = Inr (f i)"
  shows "write_rows mk is out = (out @ map f is, None)"
  using assms by (induction "is" arbitrary: out) simp_all

lemma get_attribute_column:
  "attributes m n = Some a \<Longrightarrow> get_attribute n m = Inr (column m n)"
  by (simp add: get_attribute_def column_def)

lemma get_attribute_missing:
  "attributes m n = None \<Longrightarrow> get_attribute n m = Inl (MissingAttribute n)"
  by (simp add: get_attribute_def)

lemma index_array_ok: "i < length xs \<Longrightarrow> index_array xs i = Inr (xs ! i)"
  by (simp add: index_array_def)

lemma required_present:
  assumes "\<forall>n \<in> set required_attributes.
             \<exists>a. attributes mesh n = Some a \<and> num_voxels mesh \<le> length (flat a)"
  shows "fetch_columns mesh = Inr (column mesh ''voxel_edge_ratio'', column mesh ''radius_ratio'',
      column mesh ''voxel_min_dihedral_angle'', column mesh ''voxel_max_dihedral_angle'',
      column mesh ''voxel_radius_edge_ratio'', column mesh ''conformal_AMIPS'',
      column mesh ''symmetric_Dirichlet'', column mesh ''orientations'')"
    and "\<And>n. n \<in> set required_attributes \<Longrightarrow> num_voxels mesh \<le> length (column mesh n)"
proof -
  from assms have p: "\<exists>a. attributes mesh n = Some a \<and> num_voxels mesh \<le> length (flat a)"
    if "n \<in> set required_attributes" for n
    using that by blast
  have g: "get_attribute n mesh = Inr (column mesh n)" if "n \<in> set required_attributes" for n
    using p[OF that] by (auto simp: get_attribute_column)
  show "fetch_columns mesh = Inr (column mesh ''voxel_edge_ratio'', column mesh ''radius_ratio'',
      column mesh ''voxel_min_dihedral_angle'', column mesh ''voxel_max_dihedral_angle'',
      column mesh ''voxel_radius_edge_ratio'', column mesh ''conformal_AMIPS'',
      column mesh ''symmetric_Dirichlet'', column mesh ''orientations'')"
    unfolding fetch_columns_def
    by (simp add: g required_attributes_def)
  show "num_voxels mesh \<le> length (column mesh n)" if "n \<in> set required_attributes" for n
    using p[OF that] by (auto simp: column_def)
qed

lemma csv_row_ok:
  assumes "\<And>n. n \<in> set required_attributes \<Longrightarrow> num_voxels mesh \<le> length (column mesh n)"
    and "i < num_voxels mesh"
  shows "csv_row (column mesh ''voxel_edge_ratio'', column mesh ''radius_ratio'',
      column mesh ''voxel_min_dihedral_angle'', column mesh ''voxel_max_dihedral_angle'',
      column mesh ''voxel_radius_edge_ratio'', column mesh ''conformal_AMIPS'',
      column mesh ''symmetric_Dirichlet'', column mesh ''orientations'') i
    = Inr (table_row mesh i)"
proof -
  have "index_array (column mesh n) i = Inr (column mesh n ! i)"
    if "n \<in> set required_attributes" for n
    using assms(1)[OF that] assms(2) by (simp add: index_array_ok)
  then show ?thesis
    by (simp add: csv_row_def table_row_def required_attributes_def)
qed

lemma two_tets_facts:
  "num_voxels two_tets = 2"
  "column two_tets ''voxel_edge_ratio'' = [Fin 1, Fin 2]"
  "column two_tets ''radius_ratio'' = [Fin (1/4), Fin (1/3)]"
  "column two_tets ''voxel_min_dihedral_angle'' = [Fin (1/2), Fin 1]"
  "column two_tets ''voxel_max_dihedral_angle'' = [Fin 3, Fin 2]"
  "column two_tets ''voxel_radius_edge_ratio'' = [Fin 1, Fin 1]"
  "column two_tets ''conformal_AMIPS'' = [Fin 3, PInf]"
  "column two_tets ''symmetric_Dirichlet'' = [Fin 6, NaN]"
  "column two_tets ''orientations'' = [Fin 1, Fin (- 1)]"
  by (simp_all add: two_tets_def num_voxels_def column_def)

lemma two_tets_present:
  "\<forall>n \<in> set required_attributes.
     \<exists>a. attributes two_tets n = Some a \<and> num_voxels two_tets \<le> length (flat a)"
  by (simp add: required_attributes_def two_tets_def num_voxels_def)

text \<open>
  Claim C7. When each of the eight attributes the exporter fetches is stored with at
  least one value per tetrahedron, the exporter leaves without an exception and the
  file holds the header row, with the nine column names in their order, followed by
  one row per tetrahedron in mesh order: row \<open>i\<close> starts with the index \<open>i\<close>, counted
  from zero, and continues with the values stored at \<open>i\<close>, as they are.
\<close>

theorem table_export:
  assumes "\<forall>n \<in> set required_attributes.
             \<exists>a. attributes mesh n = Some a \<and> num_voxels mesh \<le> length (flat a)"
  shows "\<exists>rows.
     output_to_csv mesh csv_file fs = (fs(csv_file \<mapsto> csv_header # rows), None) \<and>
     csv_header = [CStr ''index'', CStr ''edge_ratio'', CStr ''radius_ratio'',
       CStr ''min_dihedral_angle'', CStr ''max_dihedral_angle'', CStr ''radius_edge_ratio'',
       CStr ''conformal_amips'', CStr ''symmetric_dirichlet'', CStr ''orientation''] \<and>
     length rows = num_voxels mesh \<and>
     (\<forall>i < num_voxels mesh. rows ! i = table_row mesh i \<and> rows ! i ! 0 = CInt i)"
proof -
  note p = required_present[OF assms]
  let ?cols = "(column mesh ''voxel_edge_ratio'', column mesh ''radius_ratio'',
      column mesh ''voxel_min_dihedral_angle'', column mesh ''voxel_max_dihedral_angle'',
      column mesh ''voxel_radius_edge_ratio'', column mesh ''conformal_AMIPS'',
      column mesh ''symmetric_Dirichlet'', column mesh ''orientations'')"
  let ?rows = "map (table_row mesh) [0 ..< num_voxels mesh]"
  have "write_rows (csv_row ?cols) [0 ..< num_voxels mesh] [csv_header]
          = ([csv_header] @ ?rows, None)"
    by (rule write_rows_ok) (simp add: csv_row_ok[OF p(2)])
  then have out: "output_to_csv mesh csv_file fs = (fs(csv_file \<mapsto> csv_header # ?rows), None)"
    unfolding output_to_csv_def p(1) by simp
  have hd: "csv_header = [CStr ''index'', CStr ''edge_ratio'', CStr ''radius_ratio'',
       CStr ''min_dihedral_angle'', CStr ''max_dihedral_angle'', CStr ''radius_edge_ratio'',
       CStr ''conformal_amips'', CStr ''symmetric_dirichlet'', CStr ''orientation'']"
    by (simp add: csv_header_def)
  have each: "\<forall>i < num_voxels mesh. ?rows ! i = table_row mesh i \<and> ?rows ! i ! 0 = CInt i"
    by (simp add: table_row_def)
  show ?thesis
    apply (rule exI[of _ ?rows])
    apply (intro conjI)
       apply (rule out)
      apply (rule hd)
     apply simp
    apply (rule each)
    done
qed

theorem table_export_witness:
  "list_all (\<lambda>n. \<exists>a. attributes two_tets n = Some a \<and> num_voxels two_tets \<le> length (flat a))
     required_attributes \<and>
   output_to_csv two_tets ''table.csv'' no_files =
     (no_files(''table.csv'' \<mapsto>
        [csv_header,
         [CInt 0, CNum (Fin 1), CNum (Fin (1/4)), CNum (Fin (1/2)), CNum (Fin 3), CNum (Fin 1),
          CNum (Fin 3), CNum (Fin 6), CNum (Fin 1)],
         [CInt 1, CNum (Fin 2), CNum (Fin (1/3)), CNum (Fin 1), CNum (Fin 2), CNum (Fin 1),
          CNum PInf, CNum NaN, CNum (Fin (- 1))]]), None)"
proof -
  from table_export[OF two_tets_present, of "''table.csv''" no_files] obtain rows where
    out: "output_to_csv two_tets ''table.csv'' no_files
            = (no_files(''table.csv'' \<mapsto> csv_header # rows), None)"
    and len: "length rows = num_voxels two_tets"
    and each: "\<forall>i < num_voxels two_tets. rows ! i = table_row two_tets i \<and> rows ! i ! 0 = CInt i"
    by (elim exE conjE) (rule that, assumption+)
  from len have "length rows = 2"
    by (simp add: two_tets_facts)
  then have two: "rows = [rows ! 0, rows ! 1]"
    by (cases rows; cases "tl rows") auto
  from each have "rows ! 0 = table_row two_tets 0" "rows ! 1 = table_row two_tets 1"
    by (simp_all add: two_tets_facts)
  with two have "rows = [table_row two_tets 0, table_row two_tets 1]"
    by simp
  then have rows: "rows =
        [[CInt 0, CNum (Fin 1), CNum (Fin (1/4)), CNum (Fin (1/2)), CNum (Fin 3), CNum (Fin 1),
          CNum (Fin 3), CNum (Fin 6), CNum (Fin 1)],
         [CInt 1, CNum (Fin 2), CNum (Fin (1/3)), CNum (Fin 1), CNum (Fin 2), CNum (Fin 1),
          CNum PInf, CNum NaN, CNum (Fin (- 1))]]"
    by (simp add: table_row_def two_tets_facts)
  have present: "list_all
      (\<lambda>n. \<exists>a. attributes two_tets n = Some a \<and> num_voxels two_tets \<le> length (flat a))
      required_attributes"
    using two_tets_present by (simp only: list_all_iff)
  show ?thesis
    apply (intro conjI)
     apply (rule present)
    apply (rule out[unfolded rows])
    done
qed

section \<open>A missing attribute\<close>

lemma bind_err_Inl [simp]: "bind_err (Inl e) f = Inl e"
  by (simp add: bind_err_def)

lemma fetch_columns_missing:
  assumes "find (\<lambda>n. attributes mesh n = None) required_attributes = Some n"
  shows "fetch_columns mesh = Inl (MissingAttribute n)"
  using assms unfolding required_attributes_def fetch_columns_def get_attribute_def
  by (auto split: if_splits)

lemma corner_tet_no_attributes: "attributes corner_tet n = None"
  by (simp add: corner_tet_def one_tet_def)

text \<open>
  Claim C8, as stated, fails: the exporter opens the file and writes the header before
  it fetches the first attribute, so when an attribute is missing the file exists and
  holds the header row. Here the mesh has no attribute at all and the file did not
  exist before.
\<close>

theorem partial_table_counterexample:
  "fst (output_to_csv corner_tet ''table.csv'' no_files) ''table.csv'' = Some [csv_header] \<and>
   snd (output_to_csv corner_tet ''table.csv'' no_files)
     = Some (MissingAttribute ''voxel_edge_ratio'') \<and>
   no_files ''table.csv'' = None"
proof -
  have "find (\<lambda>n. attributes corner_tet n = None) required_attributes = Some ''voxel_edge_ratio''"
    by (simp add: required_attributes_def corner_tet_no_attributes)
  from fetch_columns_missing[OF this] show ?thesis
    by (simp add: output_to_csv_def no_files_def)
qed

text \<open>
  Claim C8, amended. When a required attribute is missing, the exporter fails with
  \<open>MissingAttribute\<close> for the first missing name in the order of fetching, and the file
  then holds the header row and no data row.
\<close>

theorem missing_attribute_leaves_header:
  assumes "\<exists>n \<in> set required_attributes. attributes mesh n = None"
  shows "\<exists>n \<in> set required_attributes.
     attributes mesh n = None \<and>
     find (\<lambda>k. attributes mesh k = None) required_attributes = Some n \<and>
     output_to_csv mesh csv_file fs = (fs(csv_file \<mapsto> [csv_header]), Some (MissingAttribute n))"
proof -
  from assms obtain n where f: "find (\<lambda>k. attributes mesh k = None) required_attributes = Some n"
    by (cases "find (\<lambda>k. attributes mesh k = None) required_attributes")
      (auto simp: find_None_iff)
  then have "n \<in> set required_attributes" "attributes mesh n = None"
    by (auto simp: find_Some_iff)
  moreover from fetch_columns_missing[OF f]
  have "output_to_csv mesh csv_file fs = (fs(csv_file \<mapsto> [csv_header]), Some (MissingAttribute n))"
    by (simp add: output_to_csv_def)
  ultimately show ?thesis
    using f by blast
qed

theorem missing_attribute_leaves_header_witness:
  "(\<exists>n \<in> set required_attributes. attributes corner_tet n = None) \<and>
   output_to_csv corner_tet ''table.csv'' no_files
     = (no_files(''table.csv'' \<mapsto> [csv_header]), Some (MissingAttribute ''voxel_edge_ratio''))"
proof -
  have h: "\<exists>n \<in> set required_attributes. attributes corner_tet n = None"
    by (rule bexI[of _ "''voxel_edge_ratio''"])
      (simp_all add: required_attributes_def corner_tet_no_attributes)
  from missing_attribute_leaves_header[OF h, of "''table.csv''" no_files] obtain n where
    f: "find (\<lambda>k. attributes corner_tet k = None) required_attributes = Some n"
    and out: "output_to_csv corner_tet ''table.csv'' no_files
       = (no_files(''table.csv'' \<mapsto> [csv_header]), Some (MissingAttribute n))"
    by (elim bexE conjE) (rule that, assumption+)
  from f have "n = ''voxel_edge_ratio''"
    by (simp add: required_attributes_def corner_tet_no_attributes)
  with h out show ?thesis
    by simp
qed

section \<open>The verbosity level\<close>

lemma store_option_log:
  assumes "store_option k v acc = Inr acc'" and "fst acc \<in> set log_choices"
  shows "fst acc' \<in> set log_choices"
  using assms by (cases acc; cases k) (auto simp: store_option_def split: if_splits)

lemma parse_tokens_option_step:
  assumes "looks_like_option tok" and "parse_tokens (tok # rest) acc = Inr acc'"
  obtains k v rest' acc1 where "length rest' \<le> length rest"
    and "store_option k v acc = Inr acc1" and "parse_tokens rest' acc1 = Inr acc'"
proof -
  from assms have e: "(case option_of (fst (split_eq tok)) of
           None \<Rightarrow> Inl SystemExit
         | Some OptHelp \<Rightarrow> Inl SystemExit
         | Some k \<Rightarrow>
             (case snd (split_eq tok) of
                Some v \<Rightarrow> bind_err (store_option k v acc) (parse_tokens rest)
              | None \<Rightarrow>
                  (case rest of
                     [] \<Rightarrow> Inl SystemExit
                   | v # rest' \<Rightarrow>
                       (if looks_like_option v then Inl SystemExit
                        else bind_err (store_option k v acc) (parse_tokens rest'))))) = Inr acc'"
    by (simp only: parse_tokens.simps if_True)
  have "\<exists>k. option_of (fst (split_eq tok)) = Some k \<and> k \<noteq> OptHelp"
  proof (cases "option_of (fst (split_eq tok))")
    case None
    with e show ?thesis by simp
  next
    case (Some a)
    with e show ?thesis
      by (cases a) (simp_all del: parse_tokens.simps)
  qed
  then obtain k where k: "option_of (fst (split_eq tok)) = Some k" and nh: "k \<noteq> OptHelp"
    by blast
  from e k nh have e2: "(case snd (split_eq tok) of
                Some v \<Rightarrow> bind_err (store_option k v acc) (parse_tokens rest)
              | None \<Rightarrow>
                  (case rest of
                     [] \<Rightarrow> Inl SystemExit
                   | v # rest' \<Rightarrow>
                       (if looks_like_option v then Inl SystemExit
                        else bind_err (store_option k v acc) (parse_tokens rest')))) = Inr acc'"
    by (cases k) (auto simp del: parse_tokens.simps)
  show thesis
  proof (cases "snd (split_eq tok)")
    case (Some v)
    with e2 obtain acc1 where "store_option k v acc = Inr acc1" "parse_tokens rest acc1 = Inr acc'"
      by (auto simp del: parse_tokens.simps simp: bind_err_Inr_iff)
    then show thesis
      using that[of rest k v acc1] by simp
  next
    case None
    show thesis
    proof (cases rest)
      case Nil
      with e2 None show thesis by simp
    next
      case (Cons v rest')
      with e2 None obtain acc1 where
        "store_option k v acc = Inr acc1" "parse_tokens rest' acc1 = Inr acc'"
        by (auto simp del: parse_tokens.simps simp: bind_err_Inr_iff split: if_splits)
      then show thesis
        using that[of rest' k v acc1] Cons by simp
    qed
  qed
qed

lemma parse_tokens_positional_step:
  assumes "\<not> looks_like_option tok"
  shows "parse_tokens (tok # rest) (lg, cs, pos) = parse_tokens rest (lg, cs, pos @ [tok])"
  using assms by simp

lemma parse_tokens_log:
  assumes "parse_tokens toks acc = Inr acc'" and "fst acc \<in> set log_choices"
  shows "fst acc' \<in> set log_choices"
  using assms
proof (induction "length toks" arbitrary: toks acc acc' rule: less_induct)
  case less
  show ?case
  proof (cases toks)
    case Nil
    from less.prems(1) have "acc' = acc"
      unfolding Nil by simp
    with less.prems(2) show ?thesis
      by simp
  next
    case (Cons tok rest)
    have shorter: "length rest < length toks"
      unfolding Cons by simp
    show ?thesis
    proof (cases "looks_like_option tok")
      case False
      obtain lg cs pos where acc: "acc = (lg, cs, pos)"
        by (cases acc)
      have p: "parse_tokens rest (lg, cs, pos @ [tok]) = Inr acc'"
        using less.prems(1) unfolding Cons acc parse_tokens_positional_step[OF False] .
      have c: "fst (lg, cs, pos @ [tok]) \<in> set log_choices"
        using less.prems(2) unfolding acc by simp
      show ?thesis
        by (rule less.hyps[OF shorter p c])
    next
      case True
      have e: "parse_tokens (tok # rest) acc = Inr acc'"
        using less.prems(1) unfolding Cons .
      show ?thesis
      proof (rule parse_tokens_option_step[OF True e])
        fix k v rest' acc1
        assume r: "length rest' \<le> length rest"
          and s: "store_option k v acc = Inr acc1"
          and p: "parse_tokens rest' acc1 = Inr acc'"
        from r shorter have r': "length rest' < length toks"
          by simp
        have c: "fst acc1 \<in> set log_choices"
          by (rule store_option_log[OF s less.prems(2)])
        show ?thesis
          by (rule less.hyps[OF r' p c])
      qed
    qed
  qed
qed

lemma bind_err_InrE:
  assumes "bind_err r f = Inr y"
  obtains v where "r = Inr v" and "f v = Inr y"
  using assms by (cases r) (simp_all add: bind_err_def)

lemma two_positionals:
  assumes "(case pos of
            [i, out] \<Rightarrow>
              Inr \<lparr>arg_log = lg, arg_csv = cs, arg_input_mesh = i, arg_output_mesh = out\<rparr>
          | _ \<Rightarrow> Inl SystemExit) = Inr a"
  shows "arg_log a = lg"
  using assms by (auto split: list.splits)

lemma parse_args_log:
  assumes "parse_args argv = Inr a"
  shows "arg_log a \<in> set log_choices"
proof -
  from assms have "bind_err (parse_tokens argv (''WARNING'', None, [])) (\<lambda>acc.
       case acc of (lg, cs, pos) \<Rightarrow>
         (case pos of
            [i, out] \<Rightarrow>
              Inr \<lparr>arg_log = lg, arg_csv = cs, arg_input_mesh = i, arg_output_mesh = out\<rparr>
          | _ \<Rightarrow> Inl SystemExit)) = Inr a"
    unfolding parse_args_def .
  then obtain acc where
    p: "parse_tokens argv (''WARNING'', None, []) = Inr acc"
    and c: "(case acc of (lg, cs, pos) \<Rightarrow>
         (case pos of
            [i, out] \<Rightarrow>
              Inr \<lparr>arg_log = lg, arg_csv = cs, arg_input_mesh = i, arg_output_mesh = out\<rparr>
          | _ \<Rightarrow> Inl SystemExit)) = Inr a"
    by (rule bind_err_InrE)
  obtain lg cs pos where acc: "acc = (lg, cs, pos)"
    by (cases acc)
  from c have a: "arg_log a = lg"
    unfolding acc prod.case by (rule two_positionals)
  have "fst (''WARNING'', None :: string option, [] :: string list) \<in> set log_choices"
    by (simp add: log_choices_def)
  from parse_tokens_log[OF p this] have "lg \<in> set log_choices"
    unfolding acc by simp
  then show ?thesis
    unfolding a .
qed

lemma log_choices_are_levels:
  assumes "n \<in> set log_choices"
  shows "\<exists>k. logging_getattr n = Some (PyInt k)"
proof -
  from assms have "n = ''DEBUG'' \<or> n = ''INFO'' \<or> n = ''WARNING'' \<or> n = ''ERROR''
      \<or> n = ''CRITICAL''"
    by (simp add: log_choices_def)
  then show ?thesis
    by (elim disjE) (simp_all add: logging_getattr_def)
qed

lemma run_invalid_level:
  assumes "invalid_level a" and "load_mesh (arg_input_mesh a) = Inr mesh"
    and "\<not> (0 < num_voxels mesh \<and> vertex_per_voxel mesh \<noteq> 4)"
  shows "run np G load_mesh a w = Inl (NameError ''loglevel'')"
proof -
  from assms(1) have "logging_getattr (arg_log a) = None
      \<or> logging_getattr (arg_log a) = Some PyObject"
    unfolding invalid_level_def
    by (cases "logging_getattr (arg_log a)"; cases "the (logging_getattr (arg_log a))") simp_all
  then show ?thesis
    unfolding run_def assms(2) bind_err_Inr
    using assms(3) by (elim disjE) simp_all
qed

lemma debug_args:
  "parse_args [''--log'', ''DEBUG'', ''in.msh'', ''out.msh'']
     = Inr \<lparr>arg_log = ''DEBUG'', arg_csv = None, arg_input_mesh = ''in.msh'',
             arg_output_mesh = ''out.msh''\<rparr>"
  by (simp add: parse_args_def looks_like_option_def option_of_def is_prefix_of_def
      store_option_def log_choices_def)

lemma bogus_facts:
  "invalid_level bogus_args"
  "load_corner (arg_input_mesh bogus_args) = Inr corner_tet"
  "\<not> (0 < num_voxels corner_tet \<and> vertex_per_voxel corner_tet \<noteq> 4)"
  by (simp_all add: invalid_level_def bogus_args_def logging_getattr_def load_corner_def
      corner_tet_def one_tet_facts)

text \<open>
  Claim C10. Whenever the arguments are parsed, the level name is one of the five
  choices, each of which the \<^verbatim>\<open>logging\<close> module resolves to an integer, so the test of
  line 136 is false and the branch of line 137 is not taken. Were the branch taken (the
  mesh loaded and the guard of line 132 passed), the exception leaving \<^verbatim>\<open>main\<close> would be
  the \<^verbatim>\<open>NameError\<close> for \<^verbatim>\<open>loglevel\<close>, not a \<^verbatim>\<open>ValueError\<close>.
\<close>

theorem invalid_level_unreachable:
  "(parse_args argv = Inr a \<longrightarrow>
      arg_log a \<in> set log_choices \<and>
      (\<exists>k. logging_getattr (arg_log a) = Some (PyInt k)) \<and>
      \<not> invalid_level a) \<and>
   (invalid_level b \<and> load_mesh (arg_input_mesh b) = Inr mesh \<and>
    \<not> (0 < num_voxels mesh \<and> vertex_per_voxel mesh \<noteq> 4) \<longrightarrow>
      run np G load_mesh b w = Inl (NameError ''loglevel'') \<and>
      run np G load_mesh b w \<noteq> Inl ValueError)"
proof (intro conjI impI)
  assume p: "parse_args argv = Inr a"
  from parse_args_log[OF p] show c: "arg_log a \<in> set log_choices" .
  from log_choices_are_levels[OF c] show l: "\<exists>k. logging_getattr (arg_log a) = Some (PyInt k)" .
  then show "\<not> invalid_level a"
    by (auto simp: invalid_level_def)
next
  assume h: "invalid_level b \<and> load_mesh (arg_input_mesh b) = Inr mesh \<and>
    \<not> (0 < num_voxels mesh \<and> vertex_per_voxel mesh \<noteq> 4)"
  then have h3: "invalid_level b" "load_mesh (arg_input_mesh b) = Inr mesh"
    "\<not> (0 < num_voxels mesh \<and> vertex_per_voxel mesh \<noteq> 4)"
    by simp_all
  have r: "run np G load_mesh b w = Inl (NameError ''loglevel'')"
    using h3 by (rule run_invalid_level)
  then show "run np G load_mesh b w = Inl (NameError ''loglevel'')" .
  from r show "run np G load_mesh b w \<noteq> Inl ValueError"
    by simp
qed

theorem invalid_level_unreachable_witness:
  "parse_args [''--log'', ''DEBUG'', ''in.msh'', ''out.msh'']
     = Inr \<lparr>arg_log = ''DEBUG'', arg_csv = None, arg_input_mesh = ''in.msh'',
             arg_output_mesh = ''out.msh''\<rparr> \<and>
   logging_getattr ''DEBUG'' = Some (PyInt 10) \<and>
   \<not> invalid_level \<lparr>arg_log = ''DEBUG'', arg_csv = None, arg_input_mesh = ''in.msh'',
             arg_output_mesh = ''out.msh''\<rparr> \<and>
   invalid_level bogus_args \<and>
   run exact_arith edge_gradient load_corner bogus_args no_world = Inl (NameError ''loglevel'')"
  using invalid_level_unreachable[of "[''--log'', ''DEBUG'', ''in.msh'', ''out.msh'']"
      "\<lparr>arg_log = ''DEBUG'', arg_csv = None, arg_input_mesh = ''in.msh'',
             arg_output_mesh = ''out.msh''\<rparr>" bogus_args load_corner corner_tet
      exact_arith edge_gradient no_world]
  by (simp add: debug_args bogus_facts logging_getattr_def)

end
